theory Spec2Isabelle
  imports Main "HOL-Library.Sublist"
begin

section \<open>JavaScript strings and numbers\<close>

text \<open>
  A JavaScript string is a sequence of UTF-16 code units, and \<open>trim\<close>, \<open>includes\<close>,
  \<open>parseInt\<close> and a regular expression without the \<open>u\<close> flag all work on code units.
  The model keeps that representation: a string is the list of its code units, each an
  integer from 0 to \<open>0xFFFF\<close> (a list element outside that range is no code unit and
  stands for no string of the program). \<open>js\<close> turns an ASCII literal into its code
  units.
\<close>

type_synonym codeUnit = int

type_synonym jsString = "codeUnit list"

definition js :: "string \<Rightarrow> jsString" where
  "js s = map of_char s"

text \<open>
  White space, as \<open>trim\<close>, \<open>parseInt\<close> and the class \<open>\s\<close> take it: the characters
  \<open>WhiteSpace\<close> and \<open>LineTerminator\<close> of the language, that is TAB, LF, VT, FF, CR,
  SPACE, U+00A0, U+1680, U+2000 to U+200A, U+2028, U+2029, U+202F, U+205F, U+3000 and
  U+FEFF. Each is one code unit.
\<close>

definition isWhitespace :: "codeUnit \<Rightarrow> bool" where
  "isWhitespace u =
     (u \<in> set [0x09, 0x0A, 0x0B, 0x0C, 0x0D, 0x20, 0xA0, 0x1680, 0x2028, 0x2029, 0x202F,
                0x205F, 0x3000, 0xFEFF] \<or>
      (0x2000 \<le> u \<and> u \<le> 0x200A))"

text \<open>
  \<open>toLowerCase\<close> follows the Unicode case tables of the engine. What it does to ASCII
  and to white space is fixed: \<open>A\<close> to \<open>Z\<close> become \<open>a\<close> to \<open>z\<close>, every other ASCII
  unit and every white space character stay. What it does to any other code unit is
  given by the engine's table, a parameter of the model: the table sees the whole string
  and the position (the lower case of a capital sigma depends on its neighbours, a
  surrogate pair is mapped as one character) and returns the units that replace the unit
  at that position.
\<close>

type_synonym caseTable = "jsString \<Rightarrow> nat \<Rightarrow> jsString"

fun lowerFrom :: "caseTable \<Rightarrow> jsString \<Rightarrow> nat \<Rightarrow> jsString \<Rightarrow> jsString" where
  "lowerFrom T s i [] = []"
| "lowerFrom T s i (u # us) =
     (if 0x41 \<le> u \<and> u \<le> 0x5A then [u + 0x20]
      else if (0 \<le> u \<and> u < 0x80) \<or> isWhitespace u then [u]
      else T s i) @ lowerFrom T s (Suc i) us"

definition toLowerCase :: "caseTable \<Rightarrow> jsString \<Rightarrow> jsString" where
  "toLowerCase T s = lowerFrom T s 0 s"

definition trimStart :: "jsString \<Rightarrow> jsString" where
  "trimStart s = dropWhile isWhitespace s"

definition trim :: "jsString \<Rightarrow> jsString" where
  "trim s = rev (trimStart (rev (trimStart s)))"

fun startsWith :: "jsString \<Rightarrow> jsString \<Rightarrow> bool" where
  "startsWith s [] = True"
| "startsWith [] (c # t) = False"
| "startsWith (a # s) (c # t) = (a = c \<and> startsWith s t)"

text \<open>\<open>String.prototype.includes\<close>: the search string occurs at some index.\<close>

fun includesStr :: "jsString \<Rightarrow> jsString \<Rightarrow> bool" where
  "includesStr [] t = (t = [])"
| "includesStr (a # s) t = (startsWith (a # s) t \<or> includesStr s t)"

text \<open>
  A JavaScript number is a double. The numbers of the order flow are integers, and a
  double holds every integer up to \<open>2^53\<close> in magnitude exactly; the model computes with
  those. Past that bound the script goes on with a rounded integer or an infinity
  (and \<open>0 * -3\<close> is the negative zero); the model does not follow it there and says
  \<open>Beyond\<close>.
\<close>

datatype number = Num int | NaN | Beyond

definition exactInteger :: "int \<Rightarrow> bool" where
  "exactInteger m = (\<bar>m\<bar> \<le> 9007199254740992)"

definition toNumber :: "int \<Rightarrow> number" where
  "toNumber m = (if exactInteger m then Num m else Beyond)"

text \<open>
  The product of two numbers that are integers: exact while the factors and the product
  are within the bound, and not the negative zero.
\<close>

definition timesNumber :: "int \<Rightarrow> int \<Rightarrow> number" where
  "timesNumber a b =
     (if exactInteger a \<and> exactInteger b \<and> exactInteger (a * b) \<and>
         \<not> (a * b = 0 \<and> (a < 0 \<or> b < 0))
      then Num (a * b) else Beyond)"

definition digitChar :: "nat \<Rightarrow> char" where
  "digitChar d = ''0123456789'' ! d"

fun showNat :: "nat \<Rightarrow> string" where
  "showNat n = (if n < 10 then [digitChar n] else showNat (n div 10) @ [digitChar (n mod 10)])"

declare showNat.simps [simp del]

text \<open>
  The string of an integer, as a template literal renders it (decimal digits; the
  integers of the model are far below \<open>10^21\<close>, where the exponent notation starts).
\<close>

definition numberToString :: "int \<Rightarrow> jsString" where
  "numberToString i =
     js (if i < 0 then CHR ''-'' # showNat (nat (- i)) else showNat (nat i))"

text \<open>
  \<open>parseInt(s)\<close> with no radix: leading white space is skipped, one sign is read, a
  \<open>0x\<close>/\<open>0X\<close> prefix switches to radix 16, and the longest run of digits of the radix
  is the value; with no digit the result is \<open>NaN\<close>. Whatever follows the digits
  is ignored. (\<open>parseInt\<close> of \<open>-0\<close> is the negative zero, which is falsy as zero is:
  \<open>Num 0\<close> stands for both, and the only use of the result is \<open>|| 1\<close>.)
\<close>

definition digitValue :: "codeUnit \<Rightarrow> nat option" where
  "digitValue u =
     map_of (zip (js ''0123456789abcdefABCDEF'')
       [0, 1, 2, 3, 4, 5, 6, 7, 8, 9, 10, 11, 12, 13, 14, 15, 10, 11, 12, 13, 14, 15]) u"

definition isRadixDigit :: "nat \<Rightarrow> codeUnit \<Rightarrow> bool" where
  "isRadixDigit R u = (case digitValue u of Some v \<Rightarrow> v < R | None \<Rightarrow> False)"

definition digitsValue :: "nat \<Rightarrow> jsString \<Rightarrow> nat" where
  "digitsValue R Z =
     foldl (\<lambda>acc u. acc * R + (case digitValue u of Some v \<Rightarrow> v | None \<Rightarrow> 0)) 0 Z"

definition parseInt :: "jsString \<Rightarrow> number" where
  "parseInt inputString =
     (let S = trimStart inputString;
          sign = (if startsWith S (js ''-'') then - 1 else 1 :: int);
          S1 = (if startsWith S (js ''+'') \<or> startsWith S (js ''-'') then tl S else S);
          hex = (startsWith S1 (js ''0x'') \<or> startsWith S1 (js ''0X''));
          R = (if hex then 16 else 10);
          S2 = (if hex then drop 2 S1 else S1);
          Z = takeWhile (isRadixDigit R) S2
      in if Z = [] then NaN else toNumber (sign * int (digitsValue R Z)))"

text \<open>
  \<open>parseInt(productQuantity.value) || 1\<close>, the expression both \<open>updateOrderSummary\<close>
  and \<open>getOrderData\<close> derive the quantity with: \<open>NaN\<close> and \<open>0\<close> are falsy and give 1,
  every other number is kept (a number beyond the bound is not zero, so it is kept too).
\<close>

definition derivedQuantity :: "jsString \<Rightarrow> number" where
  "derivedQuantity v =
     (case parseInt v of
        NaN \<Rightarrow> Num 1
      | Num n \<Rightarrow> if n = 0 then Num 1 else Num n
      | Beyond \<Rightarrow> Beyond)"

text \<open>
  \<open>encodeURIComponent\<close> reads the string as code points: a high surrogate followed by
  a low one is one code point, a surrogate on its own makes the function throw a
  \<open>URIError\<close>. Letters, digits and \<open>- _ . ! ~ * ' ( )\<close> stay; every other code point
  becomes the \<open>%XX\<close> escapes, in upper-case hexadecimal, of its UTF-8 bytes.
\<close>

definition isHighSurrogate :: "codeUnit \<Rightarrow> bool" where
  "isHighSurrogate u = (0xD800 \<le> u \<and> u \<le> 0xDBFF)"

definition isLowSurrogate :: "codeUnit \<Rightarrow> bool" where
  "isLowSurrogate u = (0xDC00 \<le> u \<and> u \<le> 0xDFFF)"

fun codePoints :: "jsString \<Rightarrow> int list option" where
  "codePoints [] = Some []"
| "codePoints [u] = (if isHighSurrogate u \<or> isLowSurrogate u then None else Some [u])"
| "codePoints (u # l # s) =
     (if isHighSurrogate u then
        (if isLowSurrogate l
         then map_option ((#) (0x10000 + (u - 0xD800) * 0x400 + (l - 0xDC00))) (codePoints s)
         else None)
      else if isLowSurrogate u then None
      else map_option ((#) u) (codePoints (l # s)))"

definition utf8 :: "int \<Rightarrow> int list" where
  "utf8 cp =
     (if cp < 0x80 then [cp]
      else if cp < 0x800 then [0xC0 + cp div 0x40, 0x80 + cp mod 0x40]
      else if cp < 0x10000 then
        [0xE0 + cp div 0x1000, 0x80 + cp div 0x40 mod 0x40, 0x80 + cp mod 0x40]
      else [0xF0 + cp div 0x40000, 0x80 + cp div 0x1000 mod 0x40, 0x80 + cp div 0x40 mod 0x40,
            0x80 + cp mod 0x40])"

definition uriUnreserved :: "codeUnit \<Rightarrow> bool" where
  "uriUnreserved u =
     (u \<in> set (js ''ABCDEFGHIJKLMNOPQRSTUVWXYZabcdefghijklmnopqrstuvwxyz0123456789-_.!~*'()''))"

definition hexDigit :: "int \<Rightarrow> codeUnit" where
  "hexDigit d = js ''0123456789ABCDEF'' ! nat d"

definition percentEscape :: "int \<Rightarrow> jsString" where
  "percentEscape b = [of_char CHR ''%'', hexDigit (b div 16), hexDigit (b mod 16)]"

definition encodeCodePoint :: "int \<Rightarrow> jsString" where
  "encodeCodePoint cp =
     (if uriUnreserved cp then [cp] else concat (map percentEscape (utf8 cp)))"

datatype fault = TypeError | URIError | BeyondExactIntegers

definition encodeURIComponent :: "jsString \<Rightarrow> fault + jsString" where
  "encodeURIComponent s =
     (case codePoints s of
        None \<Rightarrow> Inl URIError
      | Some cps \<Rightarrow> Inr (concat (map encodeCodePoint cps)))"

text \<open>
  The inverse reading of a percent-encoded text, used to state what the encoding
  preserves: \<open>%XX\<close> is the byte with that hexadecimal value, any other character is
  the byte of its code; a \<open>%\<close> not followed by two hexadecimal digits is an error.
\<close>

fun percentDecode :: "jsString \<Rightarrow> int list option" where
  "percentDecode [] = Some []"
| "percentDecode (c # s) =
     (if c = of_char CHR ''%'' then
        (case s of
           h # l # rest \<Rightarrow>
             (case (digitValue h, digitValue l, percentDecode rest) of
                (Some a, Some b, Some r) \<Rightarrow> Some (int (a * 16 + b) # r)
              | _ \<Rightarrow> None)
         | _ \<Rightarrow> None)
      else map_option ((#) c) (percentDecode s))"

text \<open>Template literals: the lines of a template, joined by line feeds.\<close>

fun joinLines :: "jsString list \<Rightarrow> jsString" where
  "joinLines [] = []"
| "joinLines [l] = l"
| "joinLines (l # m # ls) = l @ 0x0A # joinLines (m # ls)"

text \<open>
  \<open>Array.prototype.sort(cmp)\<close>: the language requires a stable sort, so for a
  consistent comparator the result is fixed whatever the engine's algorithm; a stable
  insertion sort computes it. \<open>cmp a b \<le> 0\<close> keeps \<open>a\<close> before \<open>b\<close>.
\<close>

fun insertBy :: "('a \<Rightarrow> 'a \<Rightarrow> int) \<Rightarrow> 'a \<Rightarrow> 'a list \<Rightarrow> 'a list" where
  "insertBy cmp x [] = [x]"
| "insertBy cmp x (y # ys) = (if cmp x y \<le> 0 then x # y # ys else y # insertBy cmp x ys)"

definition arraySort :: "('a \<Rightarrow> 'a \<Rightarrow> int) \<Rightarrow> 'a list \<Rightarrow> 'a list" where
  "arraySort cmp xs = foldr (insertBy cmp) xs []"

text \<open>
  The host environment: \<open>Number.prototype.toLocaleString\<close> and
  \<open>String.prototype.localeCompare\<close> depend on the browser's locale, the case table is
  the engine's, the order time is \<open>new Date().toLocaleString()\<close>, and
  \<open>orderForm.reset()\<close> restores the defaults the page's markup gives the fields. They
  are parameters of the model.
\<close>

record form =
  customer_name :: jsString
  customer_phone :: jsString
  customer_email :: jsString
  customer_address :: jsString
  product_size :: jsString
  special_instructions :: jsString

record env =
  numberToLocaleString :: "int \<Rightarrow> jsString"
  localeCompare :: "jsString \<Rightarrow> jsString \<Rightarrow> int"
  unicodeLowerCase :: caseTable
  dateToLocaleString :: jsString
  formDefaults :: form

text \<open>
  The \<open>en-US\<close> number format (the default of most browsers, and the format of the
  prices the assistant's canned answers quote, \<open>PKR 3,299\<close>): digits in groups of three
  separated by commas.
\<close>

fun groupThousands :: "string \<Rightarrow> string" where
  "groupThousands (a # b # c # d # rest) = a # b # c # CHR '','' # groupThousands (d # rest)"
| "groupThousands ds = ds"

definition toLocaleString_en_US :: "int \<Rightarrow> jsString" where
  "toLocaleString_en_US i =
     js (if i < 0 then CHR ''-'' # rev (groupThousands (rev (showNat (nat (- i)))))
         else rev (groupThousands (rev (showNat (nat i)))))"

section \<open>Catalog (HHMIBrothers/products.js)\<close>

text \<open>The prices of a catalog are integers a double holds exactly.\<close>

record product =
  p_id :: int
  p_name :: jsString
  p_price :: int
  p_image :: jsString
  p_description :: jsString
  p_category :: jsString

definition products :: "product list" where
  "products =
    [\<lparr>p_id = 1, p_name = js ''Men's Winter Parka Jacket'', p_price = 5499,
       p_image = js ''assets/images/products/jacket1.jpeg'',
       p_description = js ''Warm and stylish winter parka with hood and multiple pockets'',
       p_category = js ''winter''\<rparr>,
     \<lparr>p_id = 2, p_name = js ''Women's Faux Leather Jacket'', p_price = 4299,
       p_image = js ''assets/images/products/jacket2.jpeg'',
       p_description =
         js ''Elegant faux leather jacket perfect for casual and formal occasions'',
       p_category = js ''leather''\<rparr>,
     \<lparr>p_id = 3, p_name = js ''Men's Denim Jacket'', p_price = 3299,
       p_image = js ''assets/images/products/jacket3.jpeg'',
       p_description = js ''Classic denim jacket with a modern fit and comfortable feel'',
       p_category = js ''denim''\<rparr>,
     \<lparr>p_id = 4, p_name = js ''Women's Puffer Jacket'', p_price = 4799,
       p_image = js ''assets/images/products/jacket4.jpeg'',
       p_description = js ''Lightweight yet warm puffer jacket with water-resistant finish'',
       p_category = js ''winter''\<rparr>,
     \<lparr>p_id = 5, p_name = js ''Men's Bomber Jacket'', p_price = 3999,
       p_image = js ''assets/images/products/jacket5.jpeg'',
       p_description = js ''Classic bomber jacket with ribbed cuffs and comfortable fit'',
       p_category = js ''casual''\<rparr>,
     \<lparr>p_id = 6, p_name = js ''Women's Trench Coat'', p_price = 5999,
       p_image = js ''assets/images/products/jacket3.jpeg'',
       p_description = js ''Elegant trench coat perfect for formal occasions and rainy days'',
       p_category = js ''formal''\<rparr>,
     \<lparr>p_id = 7, p_name = js ''Men's Hooded Jacket'', p_price = 3799,
       p_image = js ''assets/images/products/jacket1.jpeg'',
       p_description = js ''Comfortable hooded jacket for everyday wear'',
       p_category = js ''casual''\<rparr>,
     \<lparr>p_id = 8, p_name = js ''Women's Windbreaker'', p_price = 3499,
       p_image = js ''assets/images/products/jacket.jpeg'',
       p_description = js ''Lightweight windbreaker perfect for windy days'',
       p_category = js ''casual''\<rparr>]"

section \<open>Search and sort (script.js)\<close>

text \<open>
  \<open>performSearch\<close> reads the search box and assigns \<open>filteredProducts\<close>; the model
  returns the new value of that variable.
\<close>

definition performSearch :: "env \<Rightarrow> product list \<Rightarrow> jsString \<Rightarrow> product list" where
  "performSearch e catalog searchInputValue =
     (let searchTerm = trim (toLowerCase (unicodeLowerCase e) searchInputValue)
      in if searchTerm = [] then catalog
         else filter (\<lambda>product.
                includesStr (toLowerCase (unicodeLowerCase e) (p_name product)) searchTerm \<or>
                includesStr (toLowerCase (unicodeLowerCase e) (p_description product))
                  searchTerm \<or>
                includesStr (toLowerCase (unicodeLowerCase e) (p_category product)) searchTerm)
              catalog)"

text \<open>
  \<open>performSort\<close> sorts a copy of \<open>filteredProducts\<close> by the value of the sort
  selector and hands it to the renderer; the model returns the list rendered.
\<close>

definition performSort :: "env \<Rightarrow> jsString \<Rightarrow> product list \<Rightarrow> product list" where
  "performSort e sortValue filteredProducts =
     (if sortValue = js ''price-low''
      then arraySort (\<lambda>a b. p_price a - p_price b) filteredProducts
      else if sortValue = js ''price-high''
      then arraySort (\<lambda>a b. p_price b - p_price a) filteredProducts
      else if sortValue = js ''name'' then
        arraySort (\<lambda>a b. localeCompare e (p_name a) (p_name b)) filteredProducts
      else filteredProducts)"

section \<open>The order form (script.js)\<close>

text \<open>
  The page state the order functions read and write: the global \<open>currentProduct\<close>
  (\<open>null\<close> and \<open>undefined\<close> are \<open>None\<close>), the value of the quantity input, the form
  fields, the modal's \<open>style.display\<close>, the body's \<open>style.overflow\<close> and the four
  texts of the order summary.
\<close>

record page =
  currentProduct :: "product option"
  productQuantity :: jsString
  orderForm :: form
  orderModalDisplay :: jsString
  bodyOverflow :: jsString
  summaryProduct :: jsString
  summaryPrice :: jsString
  summaryQuantity :: jsString
  summaryTotal :: jsString

text \<open>
  What a function does to the world besides the page state, in order: dialogs, console
  warnings and errors (\<open>console.log\<close> is not modelled), opened windows, the email
  pop-up, a navigation. A function that throws gives a \<^typ>\<open>fault\<close> instead:
  \<open>TypeError\<close> and \<open>URIError\<close> are the exceptions of the language;
  \<open>BeyondExactIntegers\<close> is no exception but the mark of a run whose quantity or total
  leaves the integers a double holds exactly, where the script goes on with a rounded
  number and the model stops.
\<close>

datatype effect =
  Alert jsString
| ConsoleWarn jsString
| ConsoleError jsString
| WindowOpen jsString jsString
| ShowEmailCopyInstructions jsString jsString jsString
| LocationHref jsString

definition updateOrderSummary :: "env \<Rightarrow> page \<Rightarrow> fault + page \<times> effect list" where
  "updateOrderSummary e pg =
     (case currentProduct pg of
        None \<Rightarrow> Inr (pg, [ConsoleWarn (js ''No current product selected for order summary'')])
      | Some cp \<Rightarrow>
          (case derivedQuantity (productQuantity pg) of
             Num quantity \<Rightarrow>
               (case timesNumber (p_price cp) quantity of
                  Num totalAmount \<Rightarrow>
                    Inr (pg\<lparr>summaryProduct := js ''Product: '' @ p_name cp,
                             summaryPrice :=
                               js ''Unit Price: PKR '' @ numberToLocaleString e (p_price cp),
                             summaryQuantity := js ''Quantity: '' @ numberToString quantity,
                             summaryTotal :=
                               js ''Total Amount: PKR '' @ numberToLocaleString e totalAmount\<rparr>, [])
                | _ \<Rightarrow> Inl BeyondExactIntegers)
           | _ \<Rightarrow> Inl BeyondExactIntegers))"

text \<open>
  The value a call returns to its caller. \<open>openOrderModal\<close> has no \<open>return\<close>
  statement: it returns \<open>undefined\<close> on every path.
\<close>

datatype jsValue = Undefined | Boolean bool

definition openOrderModal ::
  "product list \<Rightarrow> env \<Rightarrow> int \<Rightarrow> page \<Rightarrow> fault + jsValue \<times> page \<times> effect list" where
  "openOrderModal catalog e productId pg =
     (let found = find (\<lambda>p. p_id p = productId) catalog;
          pg1 = pg\<lparr>currentProduct := found\<rparr>
      in case found of
           Some cp \<Rightarrow>
             (case updateOrderSummary e pg1 of
                Inl err \<Rightarrow> Inl err
              | Inr (pg2, effs) \<Rightarrow>
                  Inr (Undefined,
                       pg2\<lparr>orderModalDisplay := js ''block'', bodyOverflow := js ''hidden''\<rparr>,
                       effs))
         | None \<Rightarrow>
             Inr (Undefined, pg1,
                  [ConsoleError (js ''Product not found with ID: '' @ numberToString productId)]))"

definition closeOrderModal :: "env \<Rightarrow> page \<Rightarrow> page" where
  "closeOrderModal e pg =
     pg\<lparr>orderModalDisplay := js ''none'', bodyOverflow := js ''auto'',
        orderForm := formDefaults e, productQuantity := js ''1'', currentProduct := None\<rparr>"

record orderData =
  od_product :: jsString
  od_price :: int
  od_quantity :: int
  od_total :: int
  od_name :: jsString
  od_phone :: jsString
  od_email :: jsString
  od_address :: jsString
  od_size :: jsString
  od_instructions :: jsString
  od_time :: jsString

text \<open>\<open>getOrderData\<close> reads \<open>currentProduct.price\<close>: with no product it throws.\<close>

definition getOrderData :: "env \<Rightarrow> page \<Rightarrow> fault + orderData" where
  "getOrderData e pg =
     (case currentProduct pg of
        None \<Rightarrow> Inl TypeError
      | Some cp \<Rightarrow>
          (case derivedQuantity (productQuantity pg) of
             Num quantity \<Rightarrow>
               (case timesNumber (p_price cp) quantity of
                  Num totalAmount \<Rightarrow>
                    Inr \<lparr>od_product = p_name cp, od_price = p_price cp,
                         od_quantity = quantity, od_total = totalAmount,
                         od_name = customer_name (orderForm pg),
                         od_phone = customer_phone (orderForm pg),
                         od_email = customer_email (orderForm pg),
                         od_address = customer_address (orderForm pg),
                         od_size = product_size (orderForm pg),
                         od_instructions = special_instructions (orderForm pg),
                         od_time = dateToLocaleString e\<rparr>
                | _ \<Rightarrow> Inl BeyondExactIntegers)
           | _ \<Rightarrow> Inl BeyondExactIntegers))"

text \<open>The symbols of the message template, as UTF-16.\<close>

definition shoppingBags :: jsString where
  "shoppingBags = [0xD83D, 0xDECD, 0xFE0F]"

definition packageSign :: jsString where
  "packageSign = [0xD83D, 0xDCE6]"

definition bustSign :: jsString where
  "bustSign = [0xD83D, 0xDC64]"

definition memoSign :: jsString where
  "memoSign = [0xD83D, 0xDCDD]"

definition alarmClock :: jsString where
  "alarmClock = [0x23F0]"

definition boxLine :: jsString where
  "boxLine = [0x2500]"

definition bullet :: jsString where
  "bullet = [0x2022]"

definition orderMessageLines :: "env \<Rightarrow> orderData \<Rightarrow> jsString list" where
  "orderMessageLines e d =
     [shoppingBags @ js '' NEW ORDER - HHMI Brothers'',
      [],
      packageSign @ js '' ORDER DETAILS:'',
      js ''Product: '' @ od_product d,
      js ''Price: PKR '' @ numberToLocaleString e (od_price d),
      js ''Quantity: '' @ numberToString (od_quantity d),
      js ''Total: PKR '' @ numberToLocaleString e (od_total d),
      js ''Size: '' @ od_size d,
      [],
      bustSign @ js '' CUSTOMER INFO:'',
      js ''Name: '' @ od_name d,
      js ''Phone: '' @ od_phone d,
      (if od_email d \<noteq> [] then js ''Email: '' @ od_email d else []),
      js ''Address: '' @ od_address d,
      [],
      memoSign @ js '' INSTRUCTIONS:'',
      (if od_instructions d \<noteq> [] then od_instructions d else js ''None''),
      alarmClock @ js '' Order Time: '' @ od_time d @ js '';'',
      concat (replicate 23 boxLine),
      js ''Order placed via HHMI Brothers Website'',
      js ''Please process this order and contact the customer for confirmation.'']"

text \<open>\<open>formatOrderMessage\<close> returns one template literal: these lines, joined.\<close>

definition formatOrderMessage :: "env \<Rightarrow> orderData \<Rightarrow> jsString" where
  "formatOrderMessage e d = joinLines (orderMessageLines e d)"

text \<open>
  The email pattern \<open>/^[^\s@]+@[^\s@]+\.[^\s@]+$/\<close>, as a sequence of items matched
  against the whole string, code unit by code unit, with backtracking.
\<close>

datatype atom = Chr codeUnit | NoneOf "codeUnit \<Rightarrow> bool"

datatype regexItem = One atom | OneOrMore atom

fun atomMatches :: "atom \<Rightarrow> codeUnit \<Rightarrow> bool" where
  "atomMatches (Chr c) x = (x = c)"
| "atomMatches (NoneOf P) x = (\<not> P x)"

fun regexTest :: "regexItem list \<Rightarrow> jsString \<Rightarrow> bool" where
  "regexTest [] s = (s = [])"
| "regexTest (One a # r) [] = False"
| "regexTest (One a # r) (c # cs) = (atomMatches a c \<and> regexTest r cs)"
| "regexTest (OneOrMore a # r) [] = False"
| "regexTest (OneOrMore a # r) (c # cs) =
     (atomMatches a c \<and> (regexTest r cs \<or> regexTest (OneOrMore a # r) cs))"

definition spaceOrAt :: "codeUnit \<Rightarrow> bool" where
  "spaceOrAt c = (isWhitespace c \<or> c = of_char CHR ''@'')"

definition emailRegex :: "regexItem list" where
  "emailRegex =
     [OneOrMore (NoneOf spaceOrAt), One (Chr (of_char CHR ''@'')),
      OneOrMore (NoneOf spaceOrAt), One (Chr (of_char CHR ''.'')),
      OneOrMore (NoneOf spaceOrAt)]"

definition isValidEmail :: "jsString \<Rightarrow> bool" where
  "isValidEmail email = regexTest emailRegex email"

definition requiredFieldsAlert :: jsString where
  "requiredFieldsAlert =
     js ''Please fill in all required fields (Name, Phone, Address, Size).''"

definition invalidEmailAlert :: jsString where
  "invalidEmailAlert = js ''Please enter a valid email address or leave it empty.''"

text \<open>
  \<open>validateForm\<close> returns a boolean and may show an alert. \<open>!field\<close> of a string is
  true for the empty string only.
\<close>

definition validateForm :: "form \<Rightarrow> bool \<times> effect list" where
  "validateForm f =
     (if customer_name f = [] \<or> customer_phone f = [] \<or> customer_address f = [] \<or>
         product_size f = []
      then (False, [Alert requiredFieldsAlert])
      else if customer_email f \<noteq> [] \<and> \<not> isValidEmail (customer_email f)
      then (False, [Alert invalidEmailAlert])
      else (True, []))"

definition whatsappPhone :: jsString where
  "whatsappPhone = js ''923429438436''"

definition placeWhatsAppOrder :: "env \<Rightarrow> page \<Rightarrow> fault + page \<times> effect list" where
  "placeWhatsAppOrder e pg =
     (case validateForm (orderForm pg) of
        (False, alerts) \<Rightarrow> Inr (pg, alerts)
      | (True, alerts) \<Rightarrow>
          (case getOrderData e pg of
             Inl err \<Rightarrow> Inl err
           | Inr orderData \<Rightarrow>
               (let message = formatOrderMessage e orderData;
                    phone = whatsappPhone
                in case encodeURIComponent message of
                     Inl err \<Rightarrow> Inl err
                   | Inr encoded \<Rightarrow>
                       (let url = js ''https://wa.me/'' @ phone @ js ''?text='' @ encoded
                        in Inr (closeOrderModal e pg,
                                alerts @ [WindowOpen url (js ''_blank'')])))))"

definition orderEmail :: jsString where
  "orderEmail = js ''hhmibrothers@gmail.com''"

definition emailContentOf :: "env \<Rightarrow> orderData \<Rightarrow> jsString" where
  "emailContentOf e d = joinLines
     [formatOrderMessage e d,
      [],
      js ''---'',
      js ''ORDER SUMMARY:'',
      bullet @ js '' Product: '' @ od_product d,
      bullet @ js '' Size: '' @ od_size d @ js ''  '',
      bullet @ js '' Quantity: '' @ numberToString (od_quantity d),
      bullet @ js '' Total: PKR '' @ numberToLocaleString e (od_total d),
      bullet @ js '' Customer: '' @ od_name d,
      bullet @ js '' Phone: '' @ od_phone d,
      bullet @ js '' Address: '' @ od_address d,
      (if od_email d \<noteq> [] then bullet @ js '' Email: '' @ od_email d else []),
      (if od_instructions d \<noteq> [] then bullet @ js '' Instructions: '' @ od_instructions d
       else []),
      [],
      js ''Thank you for your order! We'll contact you within 24 hours. '' @ packageSign]"

text \<open>
  \<open>placeEmailOrder\<close> ends by calling \<open>showEmailCopyInstructions(emailContent, email,
  subject)\<close>, which builds the pop-up; the call is recorded with its arguments.
\<close>

definition placeEmailOrder :: "env \<Rightarrow> page \<Rightarrow> fault + page \<times> effect list" where
  "placeEmailOrder e pg =
     (case validateForm (orderForm pg) of
        (False, alerts) \<Rightarrow>
          Inr (pg, alerts @ [ConsoleWarn (js ''Form validation failed for Email order'')])
      | (True, alerts) \<Rightarrow>
          (case getOrderData e pg of
             Inl err \<Rightarrow> Inl err
           | Inr orderData \<Rightarrow>
               (let email = orderEmail;
                    subject = js ''NEW ORDER - HHMI Brothers - '' @ od_product orderData;
                    emailContent = emailContentOf e orderData
                in Inr (pg, alerts @ [ShowEmailCopyInstructions emailContent email subject]))))"

section \<open>The copy of the order functions in HHMIBrothers/products.js\<close>

text \<open>
  \<open>HHMIBrothers/products.js\<close> holds, after the catalog, its own copy of the script.
  Its \<open>validateForm\<close>, \<open>formatOrderMessage\<close> and \<open>placeWhatsAppOrder\<close> differ from
  those of \<open>script.js\<close>; they are modelled under the same names with the suffix
  \<open>_products\<close>.
\<close>

definition requiredFieldsAlert_products :: jsString where
  "requiredFieldsAlert_products = js ''Please fill in all required fields.''"

definition invalidEmailAlert_products :: jsString where
  "invalidEmailAlert_products = js ''Please enter a valid email address.''"

definition validateForm_products :: "form \<Rightarrow> bool \<times> effect list" where
  "validateForm_products f =
     (if customer_name f = [] \<or> customer_phone f = [] \<or> customer_email f = [] \<or>
         customer_address f = [] \<or> product_size f = []
      then (False, [Alert requiredFieldsAlert_products])
      else if \<not> regexTest emailRegex (customer_email f)
      then (False, [Alert invalidEmailAlert_products])
      else (True, []))"

definition orderMessageLines_products :: "env \<Rightarrow> orderData \<Rightarrow> jsString list" where
  "orderMessageLines_products e d =
     [js ''NEW ORDER - HHMI Brothers'',
      [],
      js ''ORDER DETAILS:'',
      concat (replicate 16 boxLine),
      js ''Product: '' @ od_product d,
      js ''Unit Price: PKR '' @ numberToLocaleString e (od_price d),
      js ''Quantity: '' @ numberToString (od_quantity d),
      js ''Total Amount: PKR '' @ numberToLocaleString e (od_total d),
      [],
      js ''CUSTOMER INFORMATION:'',
      concat (replicate 16 boxLine),
      js ''Full Name: '' @ od_name d,
      js ''Phone: '' @ od_phone d,
      js ''Email: '' @ od_email d,
      js ''Delivery Address: '' @ od_address d,
      js ''Size: '' @ od_size d,
      [],
      js ''SPECIAL INSTRUCTIONS:'',
      concat (replicate 16 boxLine),
      (if od_instructions d \<noteq> [] then od_instructions d else js ''None''),
      [],
      concat (replicate 16 boxLine),
      js ''Order placed via HHMI Brothers Website'',
      js ''Order Time: '' @ od_time d,
      js ''Please process this order and contact the customer for confirmation.'']"

definition formatOrderMessage_products :: "env \<Rightarrow> orderData \<Rightarrow> jsString" where
  "formatOrderMessage_products e d = joinLines (orderMessageLines_products e d)"

definition whatsappPhone_products :: jsString where
  "whatsappPhone_products = js ''+923441092910''"

definition placeWhatsAppOrder_products :: "env \<Rightarrow> page \<Rightarrow> fault + page \<times> effect list" where
  "placeWhatsAppOrder_products e pg =
     (case validateForm_products (orderForm pg) of
        (False, alerts) \<Rightarrow>
          Inr (pg, alerts @ [ConsoleWarn (js ''Form validation failed for WhatsApp order'')])
      | (True, alerts) \<Rightarrow>
          (case getOrderData e pg of
             Inl err \<Rightarrow> Inl err
           | Inr orderData \<Rightarrow>
               (let message = formatOrderMessage_products e orderData;
                    phone = whatsappPhone_products
                in case encodeURIComponent message of
                     Inl err \<Rightarrow> Inl err
                   | Inr encoded \<Rightarrow>
                       (let url = js ''https://wa.me/'' @ phone @ js ''?text='' @ encoded
                        in Inr (closeOrderModal e pg,
                                alerts @ [WindowOpen url (js ''_blank'')])))))"

section \<open>The assistant's conversation log (ai-assistant.js)\<close>

text \<open>
  The state is the array \<open>conversationHistory\<close> and the entry
  \<open>hhmi-ai-conversation\<close> of \<open>localStorage\<close>, \<open>None\<close> while it is absent; the stored
  JSON text is modelled by the array it serialises. \<open>localStorage.setItem\<close> may throw
  (the quota), which \<open>saveConversationHistory\<close> catches: whether the write goes through
  is an input of each step.
\<close>

record logEntry =
  le_type :: jsString
  le_content :: jsString
  le_timestamp :: jsString

record chat =
  conversationHistory :: "logEntry list"
  storedConversation :: "logEntry list option"

text \<open>\<open>xs.slice(-n)\<close>: the last \<open>n\<close> elements, all of them when there are fewer.\<close>

definition sliceLast :: "nat \<Rightarrow> 'a list \<Rightarrow> 'a list" where
  "sliceLast n xs = drop (length xs - n) xs"

definition saveConversationHistory :: "bool \<Rightarrow> chat \<Rightarrow> chat" where
  "saveConversationHistory setItemOk c =
     (let c1 = (if length (conversationHistory c) > 20
                then c\<lparr>conversationHistory := sliceLast 20 (conversationHistory c)\<rparr>
                else c)
      in if setItemOk then c1\<lparr>storedConversation := Some (conversationHistory c1)\<rparr> else c1)"

definition pushEntry :: "jsString \<Rightarrow> jsString \<Rightarrow> jsString \<Rightarrow> chat \<Rightarrow> chat" where
  "pushEntry ty message now c =
     c\<lparr>conversationHistory := conversationHistory c @
        [\<lparr>le_type = ty, le_content = message, le_timestamp = now\<rparr>]\<rparr>"

definition addUserMessage :: "jsString \<Rightarrow> jsString \<Rightarrow> bool \<Rightarrow> chat \<Rightarrow> chat" where
  "addUserMessage message now setItemOk c =
     saveConversationHistory setItemOk (pushEntry (js ''user'') message now c)"

definition addBotMessage :: "jsString \<Rightarrow> jsString \<Rightarrow> bool \<Rightarrow> chat \<Rightarrow> chat" where
  "addBotMessage message now setItemOk c =
     saveConversationHistory setItemOk (pushEntry (js ''bot'') message now c)"

text \<open>
  A run of the chat: user and bot messages in the order they are added, each with its
  text, its time stamp and whether the write to the store goes through.
\<close>

datatype chatEvent = UserMessage jsString jsString bool | BotMessage jsString jsString bool

fun chatStep :: "chat \<Rightarrow> chatEvent \<Rightarrow> chat" where
  "chatStep c (UserMessage message now ok) = addUserMessage message now ok c"
| "chatStep c (BotMessage message now ok) = addBotMessage message now ok c"

definition chatRun :: "chat \<Rightarrow> chatEvent list \<Rightarrow> chat" where
  "chatRun c events = foldl chatStep c events"

fun entryOf :: "chatEvent \<Rightarrow> logEntry" where
  "entryOf (UserMessage message now ok) =
     \<lparr>le_type = js ''user'', le_content = message, le_timestamp = now\<rparr>"
| "entryOf (BotMessage message now ok) =
     \<lparr>le_type = js ''bot'', le_content = message, le_timestamp = now\<rparr>"

fun writeOk :: "chatEvent \<Rightarrow> bool" where
  "writeOk (UserMessage message now ok) = ok"
| "writeOk (BotMessage message now ok) = ok"

section \<open>Sample inputs\<close>

text \<open>
  A concrete environment and page for the examples: the \<open>en-US\<close> number format, a
  comparison of names unit by unit standing for the locale's collation, a case table
  that leaves the characters beyond ASCII as they are (the samples hold none), a fixed
  order time, empty form defaults; the order modal open on product 2 with quantity 2
  and a filled form.
\<close>

fun codeUnitCompare :: "jsString \<Rightarrow> jsString \<Rightarrow> int" where
  "codeUnitCompare [] [] = 0"
| "codeUnitCompare [] (b # t) = - 1"
| "codeUnitCompare (a # s) [] = 1"
| "codeUnitCompare (a # s) (b # t) =
     (if a = b then codeUnitCompare s t else if a < b then - 1 else 1)"

definition emptyForm :: form where
  "emptyForm =
     \<lparr>customer_name = [], customer_phone = [], customer_email = [],
      customer_address = [], product_size = [], special_instructions = []\<rparr>"

definition sampleEnv :: env where
  "sampleEnv =
     \<lparr>numberToLocaleString = toLocaleString_en_US, localeCompare = codeUnitCompare,
      unicodeLowerCase = (\<lambda>s i. [s ! i]),
      dateToLocaleString = js ''11/2/2026, 1:02:00 PM'', formDefaults = emptyForm\<rparr>"

definition sampleForm :: form where
  "sampleForm =
     \<lparr>customer_name = js ''Ali Khan'', customer_phone = js ''03001234567'',
      customer_email = js ''ali@example.com'',
      customer_address = js ''Saddar Bazar, Peshawar'',
      product_size = js ''M'', special_instructions = []\<rparr>"

definition samplePage :: page where
  "samplePage =
     \<lparr>currentProduct = find (\<lambda>p. p_id p = 2) products, productQuantity = js ''2'',
      orderForm = sampleForm, orderModalDisplay = js ''block'', bodyOverflow = js ''hidden'',
      summaryProduct = [], summaryPrice = [], summaryQuantity = [], summaryTotal = []\<rparr>"

definition emptyChat :: chat where
  "emptyChat = \<lparr>conversationHistory = [], storedConversation = None\<rparr>"

definition sampleOrder :: orderData where
  "sampleOrder =
     \<lparr>od_product = js ''Women's Faux Leather Jacket'', od_price = 4299, od_quantity = 2,
      od_total = 8598, od_name = js ''Ali Khan'', od_phone = js ''03001234567'',
      od_email = js ''ali@example.com'', od_address = js ''Saddar Bazar, Peshawar'',
      od_size = js ''M'', od_instructions = [], od_time = js ''11/2/2026, 1:02:00 PM''\<rparr>"

text \<open>The sample page after \<open>openOrderModal\<close> has opened the modal on product 2.\<close>

definition sampleOpened :: page where
  "sampleOpened =
     samplePage\<lparr>summaryProduct := js ''Product: Women's Faux Leather Jacket'',
                summaryPrice := js ''Unit Price: PKR 4,299'',
                summaryQuantity := js ''Quantity: 2'',
                summaryTotal := js ''Total Amount: PKR 8,598'',
                orderModalDisplay := js ''block'', bodyOverflow := js ''hidden''\<rparr>"

section \<open>The email pattern in words\<close>

text \<open>
  What the pattern accepts, stated without the matcher: a local part, one \<open>@\<close>, a domain,
  a dot and a final part, the three parts non-empty and free of white space and of \<open>@\<close>.
\<close>

definition localAtDomainTld :: "jsString \<Rightarrow> bool" where
  "localAtDomainTld email =
     (\<exists>l d t. email = l @ of_char CHR ''@'' # d @ of_char CHR ''.'' # t \<and>
        l \<noteq> [] \<and> d \<noteq> [] \<and> t \<noteq> [] \<and>
        list_all (\<lambda>c. \<not> isWhitespace c \<and> c \<noteq> of_char CHR ''@'') (l @ d @ t))"

text \<open>
  The looser description "at least one \<open>@\<close> with a \<open>.\<close> after it and no white space",
  taken literally, for comparison with the pattern of the code.
\<close>

definition looseEmailDescription :: "jsString \<Rightarrow> bool" where
  "looseEmailDescription email =
     (of_char CHR ''.'' \<in> set (dropWhile (\<lambda>c. c \<noteq> of_char CHR ''@'') email) \<and>
      list_all (\<lambda>c. \<not> isWhitespace c) email)"

section \<open>Properties\<close>

subsection \<open>Sample computations\<close>

lemma js_append: "js a @ js b = js (a @ b)"
  by (simp add: js_def)

lemma js_append_more: "js a @ js b @ r = js (a @ b) @ r"
  by (simp add: js_def)

lemma js_empty: "js s = [] \<longleftrightarrow> s = []"
  by (simp add: js_def)

lemma en_US_examples:
  "toLocaleString_en_US 4299 = js ''4,299''" "toLocaleString_en_US 8598 = js ''8,598''"
  by (simp_all add: toLocaleString_en_US_def showNat.simps digitChar_def)

lemma numberToString_examples:
  "numberToString 2 = js ''2''" "numberToString 999 = js ''999''"
  by (simp_all add: numberToString_def showNat.simps digitChar_def)

lemma derivedQuantity_sample: "derivedQuantity (js ''2'') = Num 2"
  by code_simp

lemma timesNumber_sample: "timesNumber 4299 2 = Num 8598"
  by (simp add: timesNumber_def exactInteger_def)

lemma currentProduct_sample:
  "currentProduct samplePage =
     Some \<lparr>p_id = 2, p_name = js ''Women's Faux Leather Jacket'', p_price = 4299,
       p_image = js ''assets/images/products/jacket2.jpeg'',
       p_description =
         js ''Elegant faux leather jacket perfect for casual and formal occasions'',
       p_category = js ''leather''\<rparr>"
  by (simp add: samplePage_def products_def)

lemma getOrderData_sample: "getOrderData sampleEnv samplePage = Inr sampleOrder"
  by (simp add: getOrderData_def samplePage_def products_def derivedQuantity_sample
      timesNumber_sample sampleOrder_def sampleForm_def sampleEnv_def)

subsection \<open>Filtering by the search term\<close>

lemma startsWith_prefix: "startsWith s t \<longleftrightarrow> prefix t s"
  by (induction s t rule: startsWith.induct) auto

lemma includesStr_sublist: "includesStr s t \<longleftrightarrow> sublist t s"
  by (induction s) (auto simp: startsWith_prefix sublist_Cons_right)

lemma whitespace_not_capital: "isWhitespace u \<Longrightarrow> \<not> (0x41 \<le> u \<and> u \<le> 0x5A)"
  by (auto simp: isWhitespace_def)

lemma lowerFrom_whitespace: "list_all isWhitespace us \<Longrightarrow> lowerFrom T s i us = us"
  by (induction us arbitrary: i) (auto dest: whitespace_not_capital)

lemma blank_term:
  assumes "list_all isWhitespace t"
  shows "trim (toLowerCase T t) = []"
proof -
  have a: "dropWhile isWhitespace t = []"
    using assms by (simp add: list_all_iff)
  show ?thesis
    unfolding trim_def trimStart_def toLowerCase_def lowerFrom_whitespace [OF assms] a by simp
qed

text \<open>
  C1, as the code has it: \<open>performSearch\<close> lower-cases the input and strips its leading
  and trailing white space before matching. For every catalog and every input the result
  is, in catalog order, exactly the products whose lower-cased name, description or
  category contains that trimmed, lower-cased term as a contiguous substring
  (\<^const>\<open>sublist\<close>); an empty or white-space-only input returns the whole catalog.
\<close>

theorem performSearch_matches_trimmed_term:
  "performSearch e catalog searchInput =
     filter (\<lambda>p.
        sublist (trim (toLowerCase (unicodeLowerCase e) searchInput))
          (toLowerCase (unicodeLowerCase e) (p_name p)) \<or>
        sublist (trim (toLowerCase (unicodeLowerCase e) searchInput))
          (toLowerCase (unicodeLowerCase e) (p_description p)) \<or>
        sublist (trim (toLowerCase (unicodeLowerCase e) searchInput))
          (toLowerCase (unicodeLowerCase e) (p_category p))) catalog \<and>
   (list_all isWhitespace searchInput \<longrightarrow> performSearch e catalog searchInput = catalog)"
  by (auto simp: performSearch_def Let_def includesStr_sublist blank_term)

theorem performSearch_matches_trimmed_term_witness:
  "map p_id (filter (\<lambda>p.
        sublist (js ''days'') (toLowerCase (unicodeLowerCase sampleEnv) (p_name p)) \<or>
        sublist (js ''days'') (toLowerCase (unicodeLowerCase sampleEnv) (p_description p)) \<or>
        sublist (js ''days'') (toLowerCase (unicodeLowerCase sampleEnv) (p_category p)))
      products) = [6, 8] \<and>
   list_all isWhitespace [0x20, 0xA0, 0x2003] \<and>
   performSearch sampleEnv products [0x20, 0xA0, 0x2003] = products"
proof -
  have a: "trim (toLowerCase (unicodeLowerCase sampleEnv) (js ''Days '' @ [0xA0])) = js ''days''"
    by code_simp
  have b: "map p_id (performSearch sampleEnv products (js ''Days '' @ [0xA0])) = [6, 8]"
    by code_simp
  have c: "list_all isWhitespace [0x20, 0xA0, 0x2003]"
    by code_simp
  note t1 = performSearch_matches_trimmed_term
    [of sampleEnv products "js ''Days '' @ [0xA0]", THEN conjunct1, unfolded a]
  note t2 = performSearch_matches_trimmed_term
    [of sampleEnv products "[0x20, 0xA0, 0x2003]", THEN conjunct2, THEN mp, OF c]
  show ?thesis
    using b c t2 by (simp add: t1 [symmetric])
qed

text \<open>
  The claim as worded matches the term itself. The input \<open>days\<close> followed by a space
  shows the difference: the windbreaker (product 8, whose description ends in
  \<open>windy days\<close>) is in the result, yet none of its three fields contains the term with
  its trailing space, in any letter case.
\<close>

theorem performSearch_untrimmed_term_counterexample:
  "last products \<in> set (performSearch sampleEnv products (js ''days '')) \<and>
   \<not> sublist (toLowerCase (unicodeLowerCase sampleEnv) (js ''days ''))
       (toLowerCase (unicodeLowerCase sampleEnv) (p_name (last products))) \<and>
   \<not> sublist (toLowerCase (unicodeLowerCase sampleEnv) (js ''days ''))
       (toLowerCase (unicodeLowerCase sampleEnv) (p_description (last products))) \<and>
   \<not> sublist (toLowerCase (unicodeLowerCase sampleEnv) (js ''days ''))
       (toLowerCase (unicodeLowerCase sampleEnv) (p_category (last products)))"
  unfolding includesStr_sublist [symmetric]
  by code_simp

subsection \<open>The derived quantity\<close>

lemma digit_cases:
  "d < 10 \<Longrightarrow>
   d = 0 \<or> d = 1 \<or> d = 2 \<or> d = 3 \<or> d = 4 \<or> d = 5 \<or> d = 6 \<or> d = 7 \<or> d = 8 \<or> d = (9::nat)"
  by arith

lemma digitValue_digitChar: "d < 10 \<Longrightarrow> digitValue (of_char (digitChar d)) = Some d"
  using digit_cases [of d] by (auto simp: digitValue_def digitChar_def js_def)

lemma digitChar_zero: "d < 10 \<Longrightarrow> (of_char (digitChar d) :: int) = 48 \<longleftrightarrow> d = 0"
  using digit_cases [of d] by (auto simp: digitChar_def)

lemma showNat_digits: "list_all (isRadixDigit 10) (js (showNat n))"
proof (induction n rule: showNat.induct)
  case (1 n)
  show ?case
  proof (cases "n < 10")
    case True
    then show ?thesis
      by (simp add: showNat.simps [of n] js_def isRadixDigit_def digitValue_digitChar)
  next
    case False
    with 1 show ?thesis
      by (simp add: showNat.simps [of n] js_def isRadixDigit_def digitValue_digitChar)
  qed
qed

lemma showNat_value: "digitsValue 10 (js (showNat n)) = n"
proof (induction n rule: showNat.induct)
  case (1 n)
  show ?case
  proof (cases "n < 10")
    case True
    then show ?thesis
      by (simp add: showNat.simps [of n] js_def digitsValue_def digitValue_digitChar)
  next
    case False
    with 1 have "digitsValue 10 (js (showNat (n div 10))) = n div 10" by simp
    with False show ?thesis
      by (simp add: showNat.simps [of n] js_def digitsValue_def digitValue_digitChar)
  qed
qed

lemma showNat_nonempty: "js (showNat n) \<noteq> []"
  by (simp add: showNat.simps [of n] js_def)

lemma showNat_head: "0 < n \<Longrightarrow> hd (js (showNat n)) \<noteq> 48"
proof (induction n rule: showNat.induct)
  case (1 n)
  show ?case
  proof (cases "n < 10")
    case True
    with 1 show ?thesis by (simp add: showNat.simps [of n] js_def digitChar_zero)
  next
    case False
    then have "0 < n div 10" by simp
    with 1 False have "hd (js (showNat (n div 10))) \<noteq> 48" by simp
    moreover have "js (showNat (n div 10)) \<noteq> []" by (rule showNat_nonempty)
    ultimately show ?thesis
      using False by (simp add: showNat.simps [of n] js_def)
  qed
qed

lemma decimal_digit_units: "isRadixDigit 10 u \<longleftrightarrow> u \<in> set (js ''0123456789'')"
  by (auto simp: isRadixDigit_def digitValue_def js_def split: if_splits)

lemma parseInt_decimal:
  assumes Z: "Z \<noteq> []" "list_all (isRadixDigit 10) Z" "hd Z \<noteq> 48"
    and rest: "rest = [] \<or> \<not> isRadixDigit 10 (hd rest)"
    and ws: "list_all isWhitespace ws"
  shows "parseInt (ws @ Z @ rest) = toNumber (int (digitsValue 10 Z)) \<and>
         parseInt (ws @ js ''-'' @ Z @ rest) = toNumber (- int (digitsValue 10 Z))"
proof -
  obtain z zs where Zc: "Z = z # zs" using Z(1) by (cases Z) auto
  have zd: "z \<in> set (js ''0123456789'')" and z0: "z \<noteq> 48"
    using Z Zc by (simp_all add: decimal_digit_units)
  have plain: "\<not> isWhitespace z" "z \<noteq> 45" "z \<noteq> 43"
    using zd by (auto simp: isWhitespace_def js_def)
  have tw: "takeWhile (isRadixDigit 10) (Z @ rest) = Z"
  proof (cases rest)
    case Nil
    then show ?thesis using Z(2) by (simp add: list_all_iff)
  next
    case (Cons r rs)
    with rest have "\<not> isRadixDigit 10 r" by simp
    with Cons show ?thesis
      using Z(2) by (simp add: list_all_iff takeWhile_append2)
  qed
  have minus: "js ''-'' = [45]" "js ''+'' = [43]" "js ''0x'' = [48, 120]" "js ''0X'' = [48, 88]"
    by (simp_all add: js_def)
  have t1: "trimStart (ws @ Z @ rest) = Z @ rest"
    using plain ws by (simp add: trimStart_def Zc list_all_iff dropWhile_append2)
  have t2: "trimStart (ws @ 45 # Z @ rest) = 45 # Z @ rest"
    using ws by (simp add: trimStart_def list_all_iff dropWhile_append2 isWhitespace_def)
  have s1: "\<not> startsWith (Z @ rest) [45]" "\<not> startsWith (Z @ rest) [43]"
    "\<not> startsWith (Z @ rest) [48, 120]" "\<not> startsWith (Z @ rest) [48, 88]"
    using plain z0 by (simp_all add: Zc)
  have s2: "startsWith (45 # Z @ rest) [45]"
    by simp
  have pos: "parseInt (ws @ Z @ rest) = toNumber (int (digitsValue 10 Z))"
    unfolding parseInt_def Let_def t1 minus using s1 tw Z(1) by simp
  have neg: "parseInt (ws @ js ''-'' @ Z @ rest) = toNumber (- int (digitsValue 10 Z))"
    using s1 s2 tw Z(1) by (simp add: parseInt_def Let_def minus t2)
  from pos neg show ?thesis by simp
qed

lemma parseInt_showNat:
  assumes "0 < n" and "rest = [] \<or> \<not> isRadixDigit 10 (hd rest)" and "list_all isWhitespace ws"
  shows "parseInt (ws @ js (showNat n) @ rest) = toNumber (int n) \<and>
         parseInt (ws @ js ''-'' @ js (showNat n) @ rest) = toNumber (- int n)"
  using parseInt_decimal
    [OF showNat_nonempty showNat_digits showNat_head [OF assms(1)] assms(2) assms(3)]
  by (simp add: showNat_value)

text \<open>
  C2, as the code has it: the quantity is \<open>parseInt(value) || 1\<close>. It is never 0 or
  \<open>NaN\<close>; it is 1 when the value has no leading integer or that integer is 0 (\<open>0\<close> and
  \<open>abc\<close> give 1); the decimal numeral of a positive integer \<open>n\<close> up to \<open>2^53\<close> gives
  \<open>n\<close> (\<open>4\<close> gives 4), also after leading white space and when other text follows it; a
  leading minus sign is kept and a fractional part is cut off, so \<open>-3\<close> gives -3 and
  \<open>2.5\<close> gives 2. (Past \<open>2^53\<close> the script holds a rounded number; nothing is stated
  there.)
\<close>

theorem derivedQuantity_is_parseInt_or_one:
  "derivedQuantity v \<noteq> Num 0 \<and> derivedQuantity v \<noteq> NaN \<and>
   (parseInt v = NaN \<or> parseInt v = Num 0 \<longrightarrow> derivedQuantity v = Num 1) \<and>
   (0 < n \<and> int n \<le> 9007199254740992 \<and> list_all isWhitespace ws \<and>
    (rest = [] \<or> \<not> isRadixDigit 10 (hd rest)) \<longrightarrow>
      derivedQuantity (ws @ js (showNat n) @ rest) = Num (int n) \<and>
      derivedQuantity (ws @ js ''-'' @ js (showNat n) @ rest) = Num (- int n)) \<and>
   derivedQuantity (js ''0'') = Num 1 \<and> derivedQuantity (js ''abc'') = Num 1 \<and>
   derivedQuantity (js ''4'') = Num 4 \<and> derivedQuantity (js ''-3'') = Num (- 3) \<and>
   derivedQuantity (js ''2.5'') = Num 2"
proof -
  have a: "derivedQuantity v \<noteq> Num 0" "derivedQuantity v \<noteq> NaN"
    by (simp_all add: derivedQuantity_def split: number.split)
  have b: "parseInt v = NaN \<or> parseInt v = Num 0 \<longrightarrow> derivedQuantity v = Num 1"
    by (auto simp: derivedQuantity_def)
  have c: "0 < n \<and> int n \<le> 9007199254740992 \<and> list_all isWhitespace ws \<and>
    (rest = [] \<or> \<not> isRadixDigit 10 (hd rest)) \<longrightarrow>
      derivedQuantity (ws @ js (showNat n) @ rest) = Num (int n) \<and>
      derivedQuantity (ws @ js ''-'' @ js (showNat n) @ rest) = Num (- int n)"
  proof
    assume h: "0 < n \<and> int n \<le> 9007199254740992 \<and> list_all isWhitespace ws \<and>
      (rest = [] \<or> \<not> isRadixDigit 10 (hd rest))"
    then have "parseInt (ws @ js (showNat n) @ rest) = toNumber (int n) \<and>
         parseInt (ws @ js ''-'' @ js (showNat n) @ rest) = toNumber (- int n)"
      by (intro parseInt_showNat) simp_all
    moreover have "toNumber (int n) = Num (int n)" "toNumber (- int n) = Num (- int n)"
      using h by (simp_all add: toNumber_def exactInteger_def)
    ultimately show "derivedQuantity (ws @ js (showNat n) @ rest) = Num (int n) \<and>
      derivedQuantity (ws @ js ''-'' @ js (showNat n) @ rest) = Num (- int n)"
      using h by (simp add: derivedQuantity_def)
  qed
  have d: "derivedQuantity (js ''0'') = Num 1" "derivedQuantity (js ''abc'') = Num 1"
    "derivedQuantity (js ''4'') = Num 4" "derivedQuantity (js ''-3'') = Num (- 3)"
    "derivedQuantity (js ''2.5'') = Num 2"
    by code_simp+
  from a b c d show ?thesis by blast
qed

theorem derivedQuantity_is_parseInt_or_one_witness:
  "derivedQuantity ([0xA0] @ js ''12'' @ js '' pieces'') = Num 12 \<and>
   derivedQuantity ([0xA0] @ js ''-'' @ js ''12'' @ js '' pieces'') = Num (- 12) \<and>
   parseInt (js ''abc'') = NaN \<and> derivedQuantity (js ''abc'') = Num 1"
proof -
  have a: "showNat 12 = ''12''" by (simp add: showNat.simps digitChar_def)
  have b: "\<not> isRadixDigit 10 (hd (js '' pieces''))" by code_simp
  have c: "parseInt (js ''abc'') = NaN" by code_simp
  have d: "list_all isWhitespace [0xA0]" by code_simp
  show ?thesis
    using derivedQuantity_is_parseInt_or_one [of "js ''abc''" 12 "[0xA0]" "js '' pieces''"]
      a b c d
    by simp
qed

text \<open>
  The claim as worded has \<open>-3\<close> and \<open>2.5\<close> yield 1; the code yields -3 and 2.
\<close>

theorem derivedQuantity_not_clamped_counterexample:
  "derivedQuantity (js ''-3'') = Num (- 3) \<and> derivedQuantity (js ''2.5'') = Num 2"
  by code_simp

subsection \<open>Validation of the order form\<close>

lemma regexTest_One:
  "regexTest (One a # r) s \<longleftrightarrow> (\<exists>c v. s = c # v \<and> atomMatches a c \<and> regexTest r v)"
  by (cases s) auto

lemma regexTest_OneOrMore:
  "regexTest (OneOrMore a # r) s \<longleftrightarrow>
     (\<exists>u v. s = u @ v \<and> u \<noteq> [] \<and> list_all (atomMatches a) u \<and> regexTest r v)"
proof (induction s)
  case Nil
  then show ?case by simp
next
  case (Cons c cs)
  show ?case
  proof
    assume "regexTest (OneOrMore a # r) (c # cs)"
    then have m: "atomMatches a c" and d: "regexTest r cs \<or> regexTest (OneOrMore a # r) cs"
      by simp_all
    from d show "\<exists>u v. c # cs = u @ v \<and> u \<noteq> [] \<and> list_all (atomMatches a) u \<and> regexTest r v"
    proof
      assume "regexTest r cs"
      with m have "c # cs = [c] @ cs \<and> [c] \<noteq> [] \<and> list_all (atomMatches a) [c] \<and> regexTest r cs"
        by simp
      then show ?thesis by blast
    next
      assume "regexTest (OneOrMore a # r) cs"
      with Cons.IH obtain u v where "cs = u @ v" "u \<noteq> []" "list_all (atomMatches a) u"
        "regexTest r v" by blast
      with m have "c # cs = (c # u) @ v \<and> c # u \<noteq> [] \<and> list_all (atomMatches a) (c # u) \<and>
        regexTest r v" by simp
      then show ?thesis by blast
    qed
  next
    assume "\<exists>u v. c # cs = u @ v \<and> u \<noteq> [] \<and> list_all (atomMatches a) u \<and> regexTest r v"
    then obtain u v where uv: "c # cs = u @ v" "u \<noteq> []" "list_all (atomMatches a) u"
      "regexTest r v" by blast
    then obtain u' where u: "u = c # u'" by (cases u) auto
    with uv have m: "atomMatches a c" and cs: "cs = u' @ v" and u': "list_all (atomMatches a) u'"
      by simp_all
    show "regexTest (OneOrMore a # r) (c # cs)"
    proof (cases "u' = []")
      case True
      with m cs uv show ?thesis by simp
    next
      case False
      with cs u' uv(4) Cons.IH have "regexTest (OneOrMore a # r) cs" by blast
      with m show ?thesis by simp
    qed
  qed
qed

lemma isValidEmail_shape: "isValidEmail email \<longleftrightarrow> localAtDomainTld email"
proof
  assume "isValidEmail email"
  then obtain l r1 where 1: "email = l @ r1" "l \<noteq> []" "list_all (atomMatches (NoneOf spaceOrAt)) l"
      "regexTest [One (Chr (of_char CHR ''@'')), OneOrMore (NoneOf spaceOrAt), One (Chr (of_char CHR ''.'')),
         OneOrMore (NoneOf spaceOrAt)] r1"
    unfolding isValidEmail_def emailRegex_def regexTest_OneOrMore [of _ "One _ # _"] by blast
  from 1(4) obtain r2 where 2: "r1 = of_char CHR ''@'' # r2"
      "regexTest [OneOrMore (NoneOf spaceOrAt), One (Chr (of_char CHR ''.'')), OneOrMore (NoneOf spaceOrAt)] r2"
    unfolding regexTest_One by auto
  from 2(2) obtain d r3 where 3: "r2 = d @ r3" "d \<noteq> []" "list_all (atomMatches (NoneOf spaceOrAt)) d"
      "regexTest [One (Chr (of_char CHR ''.'')), OneOrMore (NoneOf spaceOrAt)] r3"
    unfolding regexTest_OneOrMore [of _ "One _ # _"] by blast
  from 3(4) obtain r4 where 4: "r3 = of_char CHR ''.'' # r4" "regexTest [OneOrMore (NoneOf spaceOrAt)] r4"
    unfolding regexTest_One by auto
  from 4(2) obtain t r5 where 5: "r4 = t @ r5" "t \<noteq> []" "list_all (atomMatches (NoneOf spaceOrAt)) t"
      "regexTest [] r5"
    unfolding regexTest_OneOrMore [of _ "[]"] by blast
  from 5(4) have "r5 = []" by simp
  with 1 2 3 4 5 have "email = l @ of_char CHR ''@'' # d @ of_char CHR ''.'' # t \<and> l \<noteq> [] \<and> d \<noteq> [] \<and> t \<noteq> [] \<and>
        list_all (\<lambda>c. \<not> isWhitespace c \<and> c \<noteq> of_char CHR ''@'') (l @ d @ t)"
    by (auto simp: list_all_iff spaceOrAt_def)
  then show "localAtDomainTld email"
    unfolding localAtDomainTld_def by blast
next
  assume "localAtDomainTld email"
  then obtain l d t where e: "email = l @ of_char CHR ''@'' # d @ of_char CHR ''.'' # t" "l \<noteq> []" "d \<noteq> []" "t \<noteq> []"
      and ok: "list_all (\<lambda>c. \<not> isWhitespace c \<and> c \<noteq> of_char CHR ''@'') (l @ d @ t)"
    unfolding localAtDomainTld_def by blast
  from ok have okl: "list_all (atomMatches (NoneOf spaceOrAt)) l"
    and okd: "list_all (atomMatches (NoneOf spaceOrAt)) d"
    and okt: "list_all (atomMatches (NoneOf spaceOrAt)) t"
    by (simp_all add: list_all_iff spaceOrAt_def)
  have "regexTest [OneOrMore (NoneOf spaceOrAt)] t"
    unfolding regexTest_OneOrMore [of _ "[]"] using e(4) okt by simp
  then have "regexTest [One (Chr (of_char CHR ''.'')), OneOrMore (NoneOf spaceOrAt)] (of_char CHR ''.'' # t)"
    by simp
  then have "regexTest [OneOrMore (NoneOf spaceOrAt), One (Chr (of_char CHR ''.'')), OneOrMore (NoneOf spaceOrAt)]
      (d @ of_char CHR ''.'' # t)"
    unfolding regexTest_OneOrMore [of _ "One _ # _"] using e(3) okd by blast
  then have "regexTest [One (Chr (of_char CHR ''@'')), OneOrMore (NoneOf spaceOrAt), One (Chr (of_char CHR ''.'')),
      OneOrMore (NoneOf spaceOrAt)] (of_char CHR ''@'' # d @ of_char CHR ''.'' # t)"
    by simp
  then show "isValidEmail email"
    unfolding isValidEmail_def emailRegex_def regexTest_OneOrMore [of _ "One _ # _"]
    using e(1,2) okl by blast
qed

text \<open>
  C3, for \<open>validateForm\<close> of \<open>script.js\<close>: validation succeeds if and only if name,
  phone, address and size are all non-empty and the email is either empty or of the form
  \<open>local@domain.tld\<close>, the three parts non-empty and free of white space and of \<open>@\<close>
  (so there is exactly one \<open>@\<close>, with a dot after it that has text on both sides).
\<close>

theorem validateForm_succeeds_iff:
  "fst (validateForm f) \<longleftrightarrow>
     customer_name f \<noteq> [] \<and> customer_phone f \<noteq> [] \<and> customer_address f \<noteq> [] \<and>
     product_size f \<noteq> [] \<and>
     (customer_email f = [] \<or> localAtDomainTld (customer_email f))"
  by (auto simp: validateForm_def isValidEmail_shape)

theorem validateForm_succeeds_iff_witness:
  "fst (validateForm (sampleForm\<lparr>customer_email := []\<rparr>)) \<and>
   \<not> fst (validateForm (sampleForm\<lparr>customer_email := (js ''not-an-email'')\<rparr>)) \<and>
   \<not> localAtDomainTld (js ''a'' @ [0xA0] @ js ''b@c.d'') \<and>
   localAtDomainTld (js ''ali@example.com'')"
proof -
  have a: "fst (validateForm sampleForm)" by code_simp
  have b: "\<not> fst (validateForm (sampleForm\<lparr>customer_email := (js ''not-an-email'')\<rparr>))" by code_simp
  have c: "localAtDomainTld (js ''ali@example.com'')"
    using validateForm_succeeds_iff [of sampleForm] a by (simp add: sampleForm_def js_empty)
  have d: "fst (validateForm (sampleForm\<lparr>customer_email := []\<rparr>))"
    using validateForm_succeeds_iff [of "sampleForm\<lparr>customer_email := []\<rparr>"]
    by (simp add: sampleForm_def js_empty)
  have n: "\<not> fst (validateForm
      (sampleForm\<lparr>customer_email := js ''a'' @ [0xA0] @ js ''b@c.d''\<rparr>))"
    by code_simp
  have e: "\<not> localAtDomainTld (js ''a'' @ [0xA0] @ js ''b@c.d'')"
    using validateForm_succeeds_iff
      [of "sampleForm\<lparr>customer_email := js ''a'' @ [0xA0] @ js ''b@c.d''\<rparr>"] n
    by (simp add: sampleForm_def js_def)
  from b c d e show ?thesis by simp
qed

text \<open>
  The claim as worded fails in two places. The address \<open>a@b@c.d\<close> has an \<open>@\<close> with a
  dot after it and no white space, yet \<open>validateForm\<close> rejects it: the pattern allows one
  \<open>@\<close> only. And the copy of \<open>validateForm\<close> in \<open>HHMIBrothers/products.js\<close> lists the
  email among the required fields, so there a form with an empty email and every other
  field filled fails.
\<close>

theorem validateForm_email_pattern_counterexample:
  "looseEmailDescription (js ''a@b@c.d'') \<and>
   \<not> fst (validateForm (sampleForm\<lparr>customer_email := (js ''a@b@c.d'')\<rparr>)) \<and>
   \<not> fst (validateForm_products (sampleForm\<lparr>customer_email := []\<rparr>))"
  by code_simp

subsection \<open>The formatted order message\<close>

lemma joinLines_append:
  "xs \<noteq> [] \<Longrightarrow> ys \<noteq> [] \<Longrightarrow> joinLines (xs @ ys) = joinLines xs @ 0x0A # joinLines ys"
proof (induction xs rule: joinLines.induct)
  case 1
  then show ?case by simp
next
  case (2 l)
  then show ?case by (cases ys) simp_all
next
  case (3 l m ls)
  then show ?case by simp
qed

lemma sublist_joinLines:
  assumes "ys \<noteq> []" and "zs \<noteq> []"
  shows "sublist (joinLines ys @ [0x0A]) (joinLines (xs @ ys @ zs))"
proof (cases "xs = []")
  case True
  with assms have "joinLines (xs @ ys @ zs) = [] @ (joinLines ys @ [0x0A]) @ joinLines zs"
    by (simp add: joinLines_append)
  then show ?thesis by (simp only: sublist_appendI)
next
  case False
  with assms have "joinLines (xs @ ys @ zs) =
      (joinLines xs @ [0x0A]) @ (joinLines ys @ [0x0A]) @ joinLines zs"
    by (simp add: joinLines_append)
  then show ?thesis by (simp only: sublist_appendI)
qed

lemma sublist_message_lines:
  assumes "take n (drop k (orderMessageLines e d)) \<noteq> []"
    and "drop (k + n) (orderMessageLines e d) \<noteq> []"
  shows "sublist (joinLines (take n (drop k (orderMessageLines e d))) @ [0x0A])
           (formatOrderMessage e d)"
proof -
  let ?L = "orderMessageLines e d"
  have "take n (drop k ?L) @ drop n (drop k ?L) = drop k ?L"
    by (rule append_take_drop_id)
  then have "?L = take k ?L @ take n (drop k ?L) @ drop n (drop k ?L)"
    by (simp only: append_take_drop_id)
  moreover have "drop n (drop k ?L) \<noteq> []"
    using assms(2) by (simp add: add.commute)
  ultimately show ?thesis
    unfolding formatOrderMessage_def using assms(1) sublist_joinLines by metis
qed

text \<open>
  C4, as the code has it: for every order composed from a product priced 4299 with
  quantity 2 the total is 8598, and the message holds the lines
  \<open>Price: PKR <price>\<close>, \<open>Quantity: 2\<close>, \<open>Total: PKR <total>\<close> in this order, where price
  and total are 4299 and 8598 as \<open>toLocaleString()\<close> renders them in the browser's
  locale: \<open>4,299\<close> and \<open>8,598\<close> under \<open>en-US\<close>. For every order whose instructions are
  empty, the line after the instructions heading is the literal \<open>None\<close>.
\<close>

theorem order_message_price_total_instructions:
  "(currentProduct pg = Some cp \<and> p_price cp = 4299 \<and>
    derivedQuantity (productQuantity pg) = Num 2 \<longrightarrow>
      (\<exists>d. getOrderData e pg = Inr d \<and> od_price d = 4299 \<and> od_quantity d = 2 \<and>
           od_total d = 8598 \<and>
           sublist (js ''Price: PKR '' @ numberToLocaleString e 4299 @ [0x0A] @
                    js ''Quantity: 2'' @ [0x0A] @
                    js ''Total: PKR '' @ numberToLocaleString e 8598 @ [0x0A])
             (formatOrderMessage e d))) \<and>
   (od_instructions d0 = [] \<longrightarrow>
      sublist (memoSign @ js '' INSTRUCTIONS:'' @ [0x0A] @ js ''None'' @ [0x0A])
        (formatOrderMessage e d0)) \<and>
   toLocaleString_en_US 4299 = js ''4,299'' \<and> toLocaleString_en_US 8598 = js ''8,598''"
proof -
  have a: "\<exists>d. getOrderData e pg = Inr d \<and> od_price d = 4299 \<and> od_quantity d = 2 \<and>
           od_total d = 8598 \<and>
           sublist (js ''Price: PKR '' @ numberToLocaleString e 4299 @ [0x0A] @
                    js ''Quantity: 2'' @ [0x0A] @
                    js ''Total: PKR '' @ numberToLocaleString e 8598 @ [0x0A])
             (formatOrderMessage e d)"
    if h: "currentProduct pg = Some cp" "p_price cp = 4299"
      "derivedQuantity (productQuantity pg) = Num 2"
  proof -
    obtain d where d: "getOrderData e pg = Inr d" "od_price d = 4299" "od_quantity d = 2"
      "od_total d = 8598"
      using h by (simp add: getOrderData_def timesNumber_sample)
    have "sublist (joinLines (take 3 (drop 4 (orderMessageLines e d))) @ [0x0A])
        (formatOrderMessage e d)"
      by (rule sublist_message_lines) (simp_all add: orderMessageLines_def)
    then have "sublist (js ''Price: PKR '' @ numberToLocaleString e 4299 @ [0x0A] @
                    js ''Quantity: 2'' @ [0x0A] @
                    js ''Total: PKR '' @ numberToLocaleString e 8598 @ [0x0A])
             (formatOrderMessage e d)"
      using d by (simp add: orderMessageLines_def numberToString_examples js_append)
    with d show ?thesis by blast
  qed
  have b: "sublist (memoSign @ js '' INSTRUCTIONS:'' @ [0x0A] @ js ''None'' @ [0x0A])
        (formatOrderMessage e d0)" if h: "od_instructions d0 = []"
  proof -
    have "sublist (joinLines (take 2 (drop 15 (orderMessageLines e d0))) @ [0x0A])
        (formatOrderMessage e d0)"
      by (rule sublist_message_lines) (simp_all add: orderMessageLines_def)
    then show ?thesis
      using h by (simp add: orderMessageLines_def)
  qed
  from a b en_US_examples show ?thesis by blast
qed

theorem order_message_price_total_instructions_witness:
  "currentProduct samplePage = Some (products ! 1) \<and> p_price (products ! 1) = 4299 \<and>
   derivedQuantity (productQuantity samplePage) = Num 2 \<and>
   getOrderData sampleEnv samplePage = Inr sampleOrder \<and>
   sublist (js ''Price: PKR 4,299'' @ [0x0A] @ js ''Quantity: 2'' @ [0x0A] @
            js ''Total: PKR 8,598'' @ [0x0A])
     (formatOrderMessage sampleEnv sampleOrder) \<and>
   od_instructions sampleOrder = [] \<and>
   sublist (memoSign @ js '' INSTRUCTIONS:'' @ [0x0A] @ js ''None'' @ [0x0A])
     (formatOrderMessage sampleEnv sampleOrder)"
proof -
  have a: "currentProduct samplePage = Some (products ! 1)" "p_price (products ! 1) = 4299"
    "derivedQuantity (productQuantity samplePage) = Num 2"
    by code_simp+
  have b: "od_instructions sampleOrder = []"
    by (simp add: sampleOrder_def)
  have c: "numberToLocaleString sampleEnv = toLocaleString_en_US"
    by (simp add: sampleEnv_def)
  show ?thesis
    using order_message_price_total_instructions [of samplePage "products ! 1" sampleEnv sampleOrder]
      a b getOrderData_sample
    by (simp add: c en_US_examples js_append js_append_more)
qed

text \<open>
  The claim as worded has the message contain the literal substrings \<open>4299\<close> and
  \<open>8598\<close>. Under the \<open>en-US\<close> number format the order for product 2 (priced 4299) with
  quantity 2 has total 8598, and its message contains neither: the price line reads
  \<open>Price: PKR 4,299\<close> and the total line \<open>Total: PKR 8,598\<close>.
\<close>

theorem order_message_literal_digits_counterexample:
  "getOrderData sampleEnv samplePage = Inr sampleOrder \<and> od_price sampleOrder = 4299 \<and>
   od_quantity sampleOrder = 2 \<and> od_total sampleOrder = 8598 \<and>
   \<not> includesStr (formatOrderMessage sampleEnv sampleOrder) (js ''4299'') \<and>
   \<not> includesStr (formatOrderMessage sampleEnv sampleOrder) (js ''8598'') \<and>
   includesStr (formatOrderMessage sampleEnv sampleOrder) (js ''Price: PKR 4,299'') \<and>
   includesStr (formatOrderMessage sampleEnv sampleOrder) (js ''Total: PKR 8,598'')"
proof -
  have "\<not> includesStr (formatOrderMessage sampleEnv sampleOrder) (js ''4299'') \<and>
   \<not> includesStr (formatOrderMessage sampleEnv sampleOrder) (js ''8598'') \<and>
   includesStr (formatOrderMessage sampleEnv sampleOrder) (js ''Price: PKR 4,299'') \<and>
   includesStr (formatOrderMessage sampleEnv sampleOrder) (js ''Total: PKR 8,598'')"
    by (simp add: formatOrderMessage_def orderMessageLines_def sampleEnv_def sampleOrder_def
        en_US_examples numberToString_examples shoppingBags_def packageSign_def bustSign_def
        memoSign_def alarmClock_def boxLine_def eval_nat_numeral js_def)
  then show ?thesis
    using getOrderData_sample by (simp add: sampleOrder_def)
qed
subsection \<open>Selecting a product that is not in the catalog\<close>

lemma find_None_image: "x \<notin> f ` set xs \<Longrightarrow> find (\<lambda>p. f p = x) xs = None"
  by (induction xs) auto

text \<open>
  C5, as the code has it: for every catalog and every product id that no product of the
  catalog has, \<open>openOrderModal\<close> leaves the selection empty (\<open>currentProduct\<close> is
  \<open>undefined\<close>, never the first product) and changes nothing else on the page; the
  failure is written to the console with \<open>console.error\<close>, naming the id, and is not
  reported to the caller: the call returns \<open>undefined\<close> and throws nothing, and
  \<open>undefined\<close> is what every call of \<open>openOrderModal\<close> that returns gives back,
  found or not.
\<close>

theorem openOrderModal_unknown_id:
  "(productId \<notin> p_id ` set catalog \<longrightarrow>
      openOrderModal catalog e productId pg =
        Inr (Undefined, pg\<lparr>currentProduct := None\<rparr>,
             [ConsoleError (js ''Product not found with ID: '' @ numberToString productId)])) \<and>
   (openOrderModal catalog e anyId pg = Inr (v, pg', effs) \<longrightarrow> v = Undefined)"
  by (auto simp: openOrderModal_def find_None_image Let_def
      split: option.splits sum.splits prod.splits)

theorem openOrderModal_unknown_id_witness:
  "999 \<notin> p_id ` set products \<and>
   openOrderModal products sampleEnv 999 samplePage =
     Inr (Undefined, samplePage\<lparr>currentProduct := None\<rparr>,
          [ConsoleError (js ''Product not found with ID: 999'')])"
  using openOrderModal_unknown_id [of 999 products sampleEnv samplePage]
  by (simp add: products_def numberToString_examples js_append)

text \<open>
  The claim as worded has the failure reported to the caller. On the sample page (the
  modal open on product 2) the call for the unknown id 999 returns \<open>undefined\<close>, the
  very value the call for the known id 2 returns, and raises nothing; the only trace is
  the console line. The modal stays displayed with no product selected, and the failure
  reaches the user only later, when placing the order throws a \<open>TypeError\<close>.
\<close>

theorem openOrderModal_no_report_counterexample:
  "openOrderModal products sampleEnv 999 samplePage =
     Inr (Undefined, samplePage\<lparr>currentProduct := None\<rparr>,
          [ConsoleError (js ''Product not found with ID: 999'')]) \<and>
   openOrderModal products sampleEnv 2 samplePage = Inr (Undefined, sampleOpened, []) \<and>
   orderModalDisplay (samplePage\<lparr>currentProduct := None\<rparr>) = js ''block'' \<and>
   placeWhatsAppOrder sampleEnv (samplePage\<lparr>currentProduct := None\<rparr>) = Inl TypeError"
proof -
  have a: "openOrderModal products sampleEnv 999 samplePage =
     Inr (Undefined, samplePage\<lparr>currentProduct := None\<rparr>,
          [ConsoleError (js ''Product not found with ID: 999'')])"
    by (simp add: openOrderModal_def products_def numberToString_examples js_append)
  have f: "find (\<lambda>p. p_id p = 2) products = currentProduct samplePage"
    by (simp add: samplePage_def)
  have u: "updateOrderSummary sampleEnv samplePage = Inr (sampleOpened, [])"
    by (simp add: updateOrderSummary_def samplePage_def products_def derivedQuantity_sample
        timesNumber_sample sampleOpened_def sampleEnv_def en_US_examples
        numberToString_examples js_append)
  have b: "openOrderModal products sampleEnv 2 samplePage = Inr (Undefined, sampleOpened, [])"
  proof -
    have pg1: "samplePage\<lparr>currentProduct := currentProduct samplePage\<rparr> = samplePage"
      by simp
    show ?thesis
      unfolding openOrderModal_def Let_def f pg1
      by (simp add: currentProduct_sample u sampleOpened_def)
  qed
  have c: "orderModalDisplay (samplePage\<lparr>currentProduct := None\<rparr>) = js ''block''"
    by (simp add: samplePage_def)
  have v: "validateForm sampleForm = (True, [])"
    by code_simp
  have d: "placeWhatsAppOrder sampleEnv (samplePage\<lparr>currentProduct := None\<rparr>) = Inl TypeError"
  proof -
    have g: "getOrderData sampleEnv (samplePage\<lparr>currentProduct := None\<rparr>) = Inl TypeError"
      by (simp add: getOrderData_def)
    have o: "orderForm (samplePage\<lparr>currentProduct := None\<rparr>) = sampleForm"
      by (simp add: samplePage_def)
    show ?thesis
      unfolding placeWhatsAppOrder_def o v g by simp
  qed
  from a b c d show ?thesis by simp
qed

subsection \<open>A failed validation\<close>

text \<open>
  C6: when \<open>validateForm\<close> fails, \<open>placeWhatsAppOrder\<close> and \<open>placeEmailOrder\<close> return
  with the page state as it was (the selection, the quantity, the form and the open modal
  are unchanged), no URL is built and no window or pop-up is opened: the only effects are
  the alert that reports the error and, for the email button, a console warning.
\<close>

theorem failed_validation_changes_nothing:
  "\<not> fst (validateForm (orderForm pg)) \<Longrightarrow>
   (\<exists>msg. placeWhatsAppOrder e pg = Inr (pg, [Alert msg])) \<and>
   (\<exists>msg. placeEmailOrder e pg =
      Inr (pg, [Alert msg, ConsoleWarn (js ''Form validation failed for Email order'')]))"
  by (auto simp: validateForm_def placeWhatsAppOrder_def placeEmailOrder_def split: if_splits)

theorem failed_validation_changes_nothing_witness:
  "\<not> fst (validateForm (orderForm (samplePage\<lparr>orderForm := emptyForm\<rparr>))) \<and>
   (\<exists>msg. placeWhatsAppOrder sampleEnv (samplePage\<lparr>orderForm := emptyForm\<rparr>) =
      Inr (samplePage\<lparr>orderForm := emptyForm\<rparr>, [Alert msg])) \<and>
   (\<exists>msg. placeEmailOrder sampleEnv (samplePage\<lparr>orderForm := emptyForm\<rparr>) =
      Inr (samplePage\<lparr>orderForm := emptyForm\<rparr>,
           [Alert msg, ConsoleWarn (js ''Form validation failed for Email order'')]))"
  using failed_validation_changes_nothing [of "samplePage\<lparr>orderForm := emptyForm\<rparr>" sampleEnv]
  by (simp add: validateForm_def emptyForm_def)

subsection \<open>The WhatsApp link\<close>

lemma codePoints_no_surrogates:
  "list_all (\<lambda>u. \<not> isHighSurrogate u \<and> \<not> isLowSurrogate u) s \<Longrightarrow> codePoints s = Some s"
  by (induction s rule: codePoints.induct) simp_all

lemma hex_cases:
  "0 \<le> k \<Longrightarrow> k < 16 \<Longrightarrow>
   k = 0 \<or> k = 1 \<or> k = 2 \<or> k = 3 \<or> k = 4 \<or> k = 5 \<or> k = 6 \<or> k = 7 \<or> k = 8 \<or>
   k = 9 \<or> k = 10 \<or> k = 11 \<or> k = 12 \<or> k = 13 \<or> k = 14 \<or> k = (15::int)"
  by arith

lemma digitValue_hexDigit: "0 \<le> k \<Longrightarrow> k < 16 \<Longrightarrow> digitValue (hexDigit k) = Some (nat k)"
  using hex_cases [of k] by (auto simp: digitValue_def hexDigit_def js_def)

lemma percentDecode_escape:
  assumes "0 \<le> b" and "b < 256"
  shows "percentDecode (percentEscape b @ s) = map_option ((#) b) (percentDecode s)"
proof -
  have hi: "0 \<le> b div 16" "b div 16 < 16"
    using assms zdiv_mono1 [of b 255 16] by (simp_all add: pos_imp_zdiv_nonneg_iff)
  have lo: "0 \<le> b mod 16" "b mod 16 < 16"
    by simp_all
  have "int (nat (b div 16) * 16 + nat (b mod 16)) = b"
    using hi(1) lo(1) by simp
  then show ?thesis
    by (cases "percentDecode s")
      (simp_all add: percentEscape_def digitValue_hexDigit [OF hi] digitValue_hexDigit [OF lo])
qed

lemma percentDecode_escapes:
  "list_all (\<lambda>b. 0 \<le> b \<and> b < 256) bs \<Longrightarrow>
   percentDecode (concat (map percentEscape bs) @ s) = map_option ((@) bs) (percentDecode s)"
proof (induction bs)
  case Nil
  then show ?case by (simp add: option.map_ident)
next
  case (Cons b bs)
  then show ?case
    by (simp add: percentDecode_escape option.map_comp comp_def)
qed

lemma utf8_bytes:
  assumes "0 \<le> cp" and "cp < 0x110000"
  shows "list_all (\<lambda>b. 0 \<le> b \<and> b < 256) (utf8 cp)"
proof -
  have m: "0 \<le> k mod 64" "k mod 64 < 64" for k :: int
    by simp_all
  have d: "0 \<le> cp div 64" "0 \<le> cp div 4096" "0 \<le> cp div 262144"
    using assms(1) by (simp_all add: pos_imp_zdiv_nonneg_iff)
  have a: "cp < 2048 \<Longrightarrow> cp div 64 < 32"
    and b: "cp < 65536 \<Longrightarrow> cp div 4096 < 16"
    and c: "cp div 262144 < 5"
    using assms(2) zdiv_mono1 [of cp 2047 64] zdiv_mono1 [of cp 65535 4096]
      zdiv_mono1 [of cp 1114111 262144]
    by simp_all
  show ?thesis
    using m [of cp] m [of "cp div 64"] m [of "cp div 4096"] d a b c assms(1)
    by (auto simp: utf8_def)
qed

lemma unreserved_ascii: "uriUnreserved u \<Longrightarrow> 0 \<le> u \<and> u < 0x80 \<and> u \<noteq> of_char CHR ''%''"
  by (auto simp: uriUnreserved_def js_def)

lemma percentDecode_encodeCodePoint:
  assumes "0 \<le> cp" and "cp < 0x110000"
  shows "percentDecode (encodeCodePoint cp @ s) = map_option ((@) (utf8 cp)) (percentDecode s)"
proof (cases "uriUnreserved cp")
  case True
  then have "utf8 cp = [cp]" and "cp \<noteq> of_char CHR ''%''"
    using unreserved_ascii [of cp] by (simp_all add: utf8_def)
  with True show ?thesis
    by (cases "percentDecode s") (simp_all add: encodeCodePoint_def)
next
  case False
  then show ?thesis
    using percentDecode_escapes [OF utf8_bytes [OF assms]]
    by (simp add: encodeCodePoint_def)
qed

lemma percentDecode_encoded:
  "list_all (\<lambda>cp. 0 \<le> cp \<and> cp < 0x110000) cps \<Longrightarrow>
   percentDecode (concat (map encodeCodePoint cps)) = Some (concat (map utf8 cps))"
proof (induction cps)
  case Nil
  then show ?case by simp
next
  case (Cons cp cps)
  then show ?case
    by (simp add: percentDecode_encodeCodePoint)
qed

lemma codePoints_valid:
  "list_all (\<lambda>u. 0 \<le> u \<and> u \<le> 0xFFFF) s \<Longrightarrow> codePoints s = Some cps \<Longrightarrow>
   list_all (\<lambda>cp. 0 \<le> cp \<and> cp < 0x110000) cps"
proof (induction s arbitrary: cps rule: codePoints.induct)
  case 1
  then show ?case by simp
next
  case (2 u)
  then show ?case by (auto split: if_splits)
next
  case (3 u l s)
  then show ?case
    by (auto simp: isHighSurrogate_def isLowSurrogate_def split: if_splits)
qed

text \<open>
  In \<open>script.js\<close>, a valid form with a product selected, an order within the exact
  integers and a message free of lone surrogates give exactly one effect, the window
  opened on \<open>https://wa.me/923429438436?text=\<close> followed by the percent-encoding of
  the whole formatted message: the phone is digits only, and the encoded text reads
  back as the UTF-8 bytes of the message.
\<close>

lemma placeWhatsAppOrder_url:
  assumes "fst (validateForm (orderForm pg))" and "getOrderData e pg = Inr d"
    and "encodeURIComponent (formatOrderMessage e d) = Inr encoded"
    and "list_all (\<lambda>u. 0 \<le> u \<and> u \<le> 0xFFFF) (formatOrderMessage e d)"
  shows "placeWhatsAppOrder e pg =
       Inr (closeOrderModal e pg,
            [WindowOpen (js ''https://wa.me/'' @ whatsappPhone @ js ''?text='' @ encoded)
               (js ''_blank'')]) \<and>
     list_all (isRadixDigit 10) whatsappPhone \<and>
     (\<exists>cps. codePoints (formatOrderMessage e d) = Some cps \<and>
        percentDecode encoded = Some (concat (map utf8 cps)))"
proof -
  have v: "validateForm (orderForm pg) = (True, [])"
    using assms(1) by (auto simp: validateForm_def split: if_splits)
  have p: "list_all (isRadixDigit 10) whatsappPhone"
    by (simp add: whatsappPhone_def isRadixDigit_def digitValue_def js_def)
  obtain cps where cps: "codePoints (formatOrderMessage e d) = Some cps"
    "encoded = concat (map encodeCodePoint cps)"
    using assms(3) by (auto simp: encodeURIComponent_def split: option.splits)
  have "percentDecode encoded = Some (concat (map utf8 cps))"
    using codePoints_valid [OF assms(4) cps(1)] cps(2) by (simp add: percentDecode_encoded)
  with cps v p assms(2,3) show ?thesis
    by (simp add: placeWhatsAppOrder_def)
qed

lemma message_products_sample_plain:
  "list_all (\<lambda>u. \<not> isHighSurrogate u \<and> \<not> isLowSurrogate u)
     (formatOrderMessage_products sampleEnv sampleOrder)"
  by (simp add: formatOrderMessage_products_def orderMessageLines_products_def sampleEnv_def
      sampleOrder_def en_US_examples numberToString_examples boxLine_def eval_nat_numeral
      js_def isHighSurrogate_def isLowSurrogate_def)

text \<open>
  C7 in the copy of \<open>HHMIBrothers/products.js\<close>: the sample order (product 2, quantity 2,
  a valid form) opens \<open>https://wa.me/+923441092910?text=...\<close>, the text being the
  percent-encoding of the formatted message. The phone segment starts with a plus sign,
  so it is not digits only.
\<close>

theorem placeWhatsAppOrder_products_phone_has_plus:
  "encodeURIComponent (formatOrderMessage_products sampleEnv sampleOrder) =
     Inr (concat (map encodeCodePoint (formatOrderMessage_products sampleEnv sampleOrder))) \<and>
   placeWhatsAppOrder_products sampleEnv samplePage =
     Inr (closeOrderModal sampleEnv samplePage,
          [WindowOpen (js ''https://wa.me/+923441092910?text='' @
             concat (map encodeCodePoint (formatOrderMessage_products sampleEnv sampleOrder)))
             (js ''_blank'')]) \<and>
   \<not> list_all (isRadixDigit 10) whatsappPhone_products"
proof -
  have v: "validateForm_products (orderForm samplePage) = (True, [])"
    by code_simp
  have p: "\<not> list_all (isRadixDigit 10) whatsappPhone_products"
    by code_simp
  have c: "encodeURIComponent (formatOrderMessage_products sampleEnv sampleOrder) =
     Inr (concat (map encodeCodePoint (formatOrderMessage_products sampleEnv sampleOrder)))"
    by (simp add: encodeURIComponent_def codePoints_no_surrogates [OF message_products_sample_plain])
  from v p c getOrderData_sample show ?thesis
    by (simp add: placeWhatsAppOrder_products_def whatsappPhone_products_def js_append_more)
qed
subsection \<open>Sorting by price\<close>

lemma insertBy_price_low:
  "insertBy (\<lambda>a b. p_price a - p_price b) x ys = insort_key p_price x ys"
  by (induction ys) auto

lemma insertBy_price_high:
  "insertBy (\<lambda>a b. p_price b - p_price a) x ys = insort_key (\<lambda>p. - p_price p) x ys"
  by (induction ys) auto

lemma arraySort_price_low: "arraySort (\<lambda>a b. p_price a - p_price b) xs = sort_key p_price xs"
  by (induction xs) (simp_all add: arraySort_def insertBy_price_low)

lemma arraySort_price_high:
  "arraySort (\<lambda>a b. p_price b - p_price a) xs = sort_key (\<lambda>p. - p_price p) xs"
  by (induction xs) (simp_all add: arraySort_def insertBy_price_high)

lemma sorted_rev_desc:
  fixes f :: "'a \<Rightarrow> int"
  shows "sorted (map f (rev (sort_key (\<lambda>p. - f p) xs)))"
proof -
  have "sorted (map (\<lambda>p. - f p) (sort_key (\<lambda>p. - f p) xs))"
    by (rule sorted_sort_key)
  then have "sorted_wrt (\<lambda>x y. f y \<le> f x) (sort_key (\<lambda>p. - f p) xs)"
    by (simp add: sorted_map)
  then show ?thesis
    by (simp add: sorted_map sorted_wrt_rev)
qed

lemma asc_is_rev_desc:
  fixes f :: "'a \<Rightarrow> int"
  assumes "distinct (map f xs)"
  shows "sort_key f xs = rev (sort_key (\<lambda>p. - f p) xs)"
proof -
  let ?A = "sort_key f xs" and ?B = "rev (sort_key (\<lambda>p. - f p) xs)"
  have inj: "inj_on f (set xs)" and dx: "distinct xs"
    using assms by (simp_all add: distinct_map)
  have "distinct (map f ?A)" "distinct (map f ?B)"
    using inj dx by (simp_all add: distinct_map)
  moreover have "sorted (map f ?A)" by (rule sorted_sort_key)
  moreover have "sorted (map f ?B)" by (rule sorted_rev_desc)
  moreover have "set (map f ?A) = set (map f ?B)" by simp
  ultimately have "map f ?A = map f ?B"
    by (blast intro: sorted_distinct_set_unique)
  moreover have "inj_on f (set ?A \<union> set ?B)" using inj by simp
  ultimately show ?thesis by (simp add: inj_on_map_eq_map)
qed

lemma sort_keys_differ: "js ''price-high'' \<noteq> js ''price-low''"
  by (simp add: js_def)

text \<open>
  C8: for every filtered product list in which no two products share a price, the list
  rendered for \<open>price-low\<close> is exactly the reverse of the list rendered for
  \<open>price-high\<close>.
\<close>

theorem price_low_is_reverse_of_price_high:
  "distinct (map p_price filteredProducts) \<Longrightarrow>
   performSort e (js ''price-low'') filteredProducts =
     rev (performSort e (js ''price-high'') filteredProducts)"
  by (simp add: performSort_def arraySort_price_low arraySort_price_high asc_is_rev_desc
      sort_keys_differ)

theorem price_low_is_reverse_of_price_high_witness:
  "distinct (map p_price products) \<and>
   performSort sampleEnv (js ''price-low'') products =
     rev (performSort sampleEnv (js ''price-high'') products) \<and>
   map p_price (performSort sampleEnv (js ''price-low'') products) =
     [3299, 3499, 3799, 3999, 4299, 4799, 5499, 5999]"
  using price_low_is_reverse_of_price_high [of products sampleEnv]
  by (simp add: products_def performSort_def arraySort_def sort_keys_differ)

subsection \<open>The stored conversation log\<close>

lemma sliceLast_length: "length (sliceLast n xs) \<le> n"
  by (simp add: sliceLast_def)

lemma sliceLast_snoc: "sliceLast n (sliceLast n xs @ [x]) = sliceLast n (xs @ [x])"
proof (cases "n \<le> length xs")
  case True
  then have "Suc (length xs) - (length xs - n + n) + (length xs - n) = Suc (length xs) - n"
    by arith
  with True show ?thesis by (simp add: sliceLast_def)
next
  case False
  then show ?thesis by (simp add: sliceLast_def)
qed

lemma save_history:
  "conversationHistory (saveConversationHistory ok c) = sliceLast 20 (conversationHistory c)"
  by (simp add: saveConversationHistory_def sliceLast_def Let_def)

lemma save_stored:
  "storedConversation (saveConversationHistory ok c) =
     (if ok then Some (sliceLast 20 (conversationHistory c)) else storedConversation c)"
  by (simp add: saveConversationHistory_def sliceLast_def Let_def)

lemma chatStep_history:
  "conversationHistory (chatStep c ev) = sliceLast 20 (conversationHistory c @ [entryOf ev])"
  by (cases ev) (simp_all add: addUserMessage_def addBotMessage_def save_history pushEntry_def)

lemma chatStep_stored:
  "storedConversation (chatStep c ev) =
     (if writeOk ev then Some (sliceLast 20 (conversationHistory c @ [entryOf ev]))
      else storedConversation c)"
  by (cases ev) (simp_all add: addUserMessage_def addBotMessage_def save_stored pushEntry_def)

lemma chatRun_snoc: "chatRun c (es @ [ev]) = chatStep (chatRun c es) ev"
  by (simp add: chatRun_def)

lemma chatRun_history:
  "es \<noteq> [] \<Longrightarrow>
   conversationHistory (chatRun c es) = sliceLast 20 (conversationHistory c @ map entryOf es)"
proof (induction es rule: rev_induct)
  case Nil
  then show ?case by simp
next
  case (snoc ev es)
  show ?case
  proof (cases "es = []")
    case True
    then show ?thesis by (simp add: chatRun_def chatStep_history)
  next
    case False
    with snoc.IH have "conversationHistory (chatRun c es) =
        sliceLast 20 (conversationHistory c @ map entryOf es)" by simp
    then show ?thesis
      by (simp add: chatRun_snoc chatStep_history sliceLast_snoc)
  qed
qed

text \<open>
  C9: after any non-empty sequence of user and bot messages, started from any state, if
  the write of the last message goes through then the stored log is the last 20 entries
  of the whole conversation (the history at the start followed by the messages), and so
  holds at most 20 entries. Every prefix of a run is a run, so this holds after every
  write.
\<close>

theorem stored_log_bounded:
  "events \<noteq> [] \<Longrightarrow> writeOk (last events) \<Longrightarrow>
   storedConversation (chatRun c events) =
     Some (sliceLast 20 (conversationHistory c @ map entryOf events)) \<and>
   length (sliceLast 20 (conversationHistory c @ map entryOf events)) \<le> 20"
proof -
  assume ne: "events \<noteq> []" and ok: "writeOk (last events)"
  obtain es ev where ev: "events = es @ [ev]"
    using ne by (metis append_butlast_last_id)
  have "storedConversation (chatRun c events) =
      Some (sliceLast 20 (conversationHistory (chatRun c es) @ [entryOf ev]))"
    using ok by (simp add: ev chatRun_snoc chatStep_stored)
  also have "sliceLast 20 (conversationHistory (chatRun c es) @ [entryOf ev]) =
      sliceLast 20 (conversationHistory c @ map entryOf events)"
  proof (cases "es = []")
    case True
    then show ?thesis by (simp add: ev chatRun_def)
  next
    case False
    then show ?thesis by (simp add: ev chatRun_history sliceLast_snoc)
  qed
  finally show ?thesis by (simp add: sliceLast_length)
qed

theorem stored_log_bounded_witness:
  "replicate 25 (UserMessage (js ''hello'') (js ''2026-11-02T13:02:00.000Z'') True) \<noteq> [] \<and>
   writeOk (last (replicate 25
     (UserMessage (js ''hello'') (js ''2026-11-02T13:02:00.000Z'') True))) \<and>
   storedConversation
     (chatRun emptyChat (replicate 25
        (UserMessage (js ''hello'') (js ''2026-11-02T13:02:00.000Z'') True))) =
     Some (replicate 20
       \<lparr>le_type = js ''user'', le_content = js ''hello'',
        le_timestamp = js ''2026-11-02T13:02:00.000Z''\<rparr>)"
  using stored_log_bounded
    [of "replicate 25 (UserMessage (js ''hello'') (js ''2026-11-02T13:02:00.000Z'') True)"
      emptyChat]
  by (simp add: sliceLast_def emptyChat_def)

subsection \<open>Required fields made of white space\<close>

lemma alerts_differ: "requiredFieldsAlert \<noteq> invalidEmailAlert"
  by (simp add: requiredFieldsAlert_def invalidEmailAlert_def js_def)

text \<open>
  C10: a form whose name, phone, address and size are non-empty strings passes the
  required-field check of \<open>validateForm\<close>, white space or not: the required-fields alert
  is not shown, and the result is decided by the email check alone.
\<close>

theorem validateForm_required_stage:
  "customer_name f \<noteq> [] \<Longrightarrow> customer_phone f \<noteq> [] \<Longrightarrow> customer_address f \<noteq> [] \<Longrightarrow>
   product_size f \<noteq> [] \<Longrightarrow>
   Alert requiredFieldsAlert \<notin> set (snd (validateForm f)) \<and>
   fst (validateForm f) = (customer_email f = [] \<or> isValidEmail (customer_email f))"
  by (auto simp: validateForm_def alerts_differ)

theorem validateForm_required_stage_witness:
  "fst (validateForm \<lparr>customer_name = js '' '', customer_phone = js '' '',
        customer_email = [], customer_address = js '' '', product_size = js '' '',
        special_instructions = []\<rparr>) \<and>
   Alert requiredFieldsAlert \<notin> set (snd (validateForm \<lparr>customer_name = js '' '',
        customer_phone = js '' '', customer_email = [], customer_address = js '' '',
        product_size = js '' '', special_instructions = []\<rparr>))"
  using validateForm_required_stage [of "\<lparr>customer_name = js '' '',
        customer_phone = js '' '', customer_email = [], customer_address = js '' '',
        product_size = js '' '', special_instructions = []\<rparr>"]
  by (simp add: js_def)

end
